theory Spec2Isabelle
  imports Complex_Main "HOL-Library.Sublist"
begin

section \<open>JavaScript strings\<close>

text \<open>
  A JavaScript string is a sequence of UTF-16 code units. A code unit is modelled by its
  numeric value, a string by the list of its code units. ASCII text is written with
  \<open>str\<close>; the Slovenian letters outside ASCII are written by code unit:
  269 (c with caron), 353 (s with caron), 382 (z with caron), and their capitals 268, 352
  and 381.
\<close>

type_synonym jschar = nat
type_synonym jsstring = "jschar list"

definition str :: "string \<Rightarrow> jsstring" where
  "str s = map of_char s"

text \<open>\<open>s.startsWith(p)\<close> and \<open>s.includes(p)\<close>.\<close>

fun starts_with :: "jsstring \<Rightarrow> jsstring \<Rightarrow> bool" where
  "starts_with s [] = True"
| "starts_with [] (p # ps) = False"
| "starts_with (c # cs) (p # ps) = (c = p \<and> starts_with cs ps)"

fun str_includes :: "jsstring \<Rightarrow> jsstring \<Rightarrow> bool" where
  "str_includes [] p = (p = [])"
| "str_includes (c # cs) p = (starts_with (c # cs) p \<or> str_includes cs p)"

text \<open>
  \<open>String.prototype.toLowerCase\<close>. The case mapping is written out for the code units
  below U+0180 (Basic Latin, Latin-1 Supplement, Latin Extended-A, which hold the Slovenian
  alphabet); U+0130 is the one code unit there with a two-unit lower case. Code units from
  U+0180 on are left as they are: they are outside the alphabet this development covers.
\<close>

definition lower_cu :: "jschar \<Rightarrow> jsstring" where
  "lower_cu c =
     (if 65 \<le> c \<and> c \<le> 90 then [c + 32]
      else if 192 \<le> c \<and> c \<le> 222 \<and> c \<noteq> 215 then [c + 32]
      else if c = 304 then [105, 775]
      else if (256 \<le> c \<and> c \<le> 311 \<or> 330 \<le> c \<and> c \<le> 375) \<and> even c then [c + 1]
      else if 313 \<le> c \<and> c \<le> 328 \<and> odd c then [c + 1]
      else if c = 376 then [255]
      else if c = 377 \<or> c = 379 \<or> c = 381 then [c + 1]
      else [c])"

definition toLowerCase :: "jsstring \<Rightarrow> jsstring" where
  "toLowerCase s = concat (map lower_cu s)"

text \<open>
  Character classes. \<open>\d\<close> is the ASCII digits, \<open>\w\<close> the ASCII letters, digits and the
  underscore, \<open>\s\<close> the white space and line terminators of ECMAScript. The Unicode
  properties \<open>\p{L}\<close> and \<open>\p{M}\<close> are written out for the code units below U+02B0, the
  combining diacritical marks U+0300 to U+036F, and the two letters U+02BC and U+03BC that
  the normalisation below produces; every other code unit counts as neither letter nor mark.
\<close>

definition is_digit :: "jschar \<Rightarrow> bool" where
  "is_digit c = (48 \<le> c \<and> c \<le> 57)"

definition is_word :: "jschar \<Rightarrow> bool" where
  "is_word c = (is_digit c \<or> 65 \<le> c \<and> c \<le> 90 \<or> 97 \<le> c \<and> c \<le> 122 \<or> c = 95)"

definition is_space :: "jschar \<Rightarrow> bool" where
  "is_space c =
     (9 \<le> c \<and> c \<le> 13 \<or> c = 32 \<or> c = 160 \<or> c = 5760 \<or> 8192 \<le> c \<and> c \<le> 8202
      \<or> c = 8232 \<or> c = 8233 \<or> c = 8239 \<or> c = 8287 \<or> c = 12288 \<or> c = 65279)"

definition is_letter :: "jschar \<Rightarrow> bool" where
  "is_letter c =
     (65 \<le> c \<and> c \<le> 90 \<or> 97 \<le> c \<and> c \<le> 122 \<or> c = 170 \<or> c = 181 \<or> c = 186
      \<or> 192 \<le> c \<and> c \<le> 214 \<or> 216 \<le> c \<and> c \<le> 246 \<or> 248 \<le> c \<and> c \<le> 687
      \<or> c = 700 \<or> c = 956)"

definition is_mark :: "jschar \<Rightarrow> bool" where
  "is_mark c = (768 \<le> c \<and> c \<le> 879)"

text \<open>
  Simple case folding, which a regular expression with the flags \<open>iu\<close> compares code units
  by: the lower case of a cased code unit, and the long s and the Kelvin sign fold to
  \<open>s\<close> and \<open>k\<close>. With these flags \<open>\b\<close> counts the two as word characters.
\<close>

definition fold_cu :: "jschar \<Rightarrow> jschar" where
  "fold_cu c =
     (if c = 383 then 115 else if c = 8490 then 107 else if c = 8491 then 229
      else if c = 181 then 956 else if c = 304 then 304
      else (case lower_cu c of x # _ \<Rightarrow> x | [] \<Rightarrow> c))"

definition is_word_iu :: "jschar \<Rightarrow> bool" where
  "is_word_iu c = (is_word c \<or> c = 383 \<or> c = 8490)"

text \<open>
  \<open>String.prototype.normalize("NFKC")\<close>, for strings of code units below U+0180 (after
  \<open>toLowerCase\<close>, so with U+0307 after an i): the letters there are precomposed and stay,
  the compatibility characters are replaced by their decompositions, and no pair composes.
\<close>

definition nfkc_cu :: "jschar \<Rightarrow> jsstring" where
  "nfkc_cu c =
     (if c = 160 then [32] else if c = 168 then [32, 776] else if c = 170 then [97]
      else if c = 175 then [32, 772] else if c = 178 then [50] else if c = 179 then [51]
      else if c = 180 then [32, 769] else if c = 181 then [956] else if c = 184 then [32, 807]
      else if c = 185 then [49] else if c = 186 then [111]
      else if c = 188 then [49, 8260, 52] else if c = 189 then [49, 8260, 50]
      else if c = 190 then [51, 8260, 52]
      else if c = 306 then [73, 74] else if c = 307 then [105, 106]
      else if c = 319 then [76, 183] else if c = 320 then [108, 183]
      else if c = 329 then [700, 110] else if c = 383 then [115]
      else [c])"

definition normalizeNFKC :: "jsstring \<Rightarrow> jsstring" where
  "normalizeNFKC s = concat (map nfkc_cu s)"

text \<open>\<open>String.prototype.trim\<close>.\<close>

definition trim :: "jsstring \<Rightarrow> jsstring" where
  "trim s = rev (dropWhile is_space (rev (dropWhile is_space s)))"

text \<open>\<open>s.split(" ")\<close> for a separator of one code unit, and \<open>ws.join(" ")\<close>.\<close>

fun split_on :: "jschar \<Rightarrow> jsstring \<Rightarrow> jsstring list" where
  "split_on sep [] = [[]]"
| "split_on sep (c # cs) =
     (if c = sep then [] # split_on sep cs
      else (case split_on sep cs of p # ps \<Rightarrow> (c # p) # ps | [] \<Rightarrow> [[c]]))"

fun join_with :: "jsstring \<Rightarrow> jsstring list \<Rightarrow> jsstring" where
  "join_with sep [] = []"
| "join_with sep [w] = w"
| "join_with sep (w # v # ws) = w @ sep @ join_with sep (v # ws)"

text \<open>\<open>Number(d)\<close> for a string of decimal digits.\<close>

definition digits_val :: "jsstring \<Rightarrow> nat" where
  "digits_val d = foldl (\<lambda>n c. 10 * n + (c - 48)) 0 d"

section \<open>Regular expressions\<close>

text \<open>
  The regular expressions of the server, as a datatype, and the backtracking matcher of
  ECMAScript as a function from a position to the list of the positions where a match can
  end, in the order in which backtracking tries them: the head of the list is the match.
  A position holds the text before it (reversed), the text after it and the captures.
  Quantifiers are greedy; \<open>Star\<close> is \<open>*\<close>, \<open>Rep m n\<close> is \<open>{m,n}\<close>. An iteration beyond
  the minimum that consumes nothing is rejected, as ECMAScript does.
\<close>

datatype mstate = MState (before: jsstring) (after: jsstring) (caps: "(nat \<times> jsstring) list")

datatype rx =
    Cls "jschar \<Rightarrow> bool"
  | Eps
  | Seq rx rx
  | Alt rx rx
  | Star rx
  | Rep nat nat rx
  | Grp nat rx
  | Bnd "jschar \<Rightarrow> bool"
  | Bol
  | Eol

definition at_boundary :: "(jschar \<Rightarrow> bool) \<Rightarrow> mstate \<Rightarrow> bool" where
  "at_boundary w s =
     ((case before s of [] \<Rightarrow> False | c # _ \<Rightarrow> w c)
      \<noteq> (case after s of [] \<Rightarrow> False | c # _ \<Rightarrow> w c))"

primrec star :: "(mstate \<Rightarrow> mstate list) \<Rightarrow> nat \<Rightarrow> mstate \<Rightarrow> mstate list" where
  "star f 0 s = [s]"
| "star f (Suc k) s =
     concat (map (\<lambda>s'. if length (after s') < length (after s) then star f k s' else [])
               (f s)) @ [s]"

fun rep :: "(mstate \<Rightarrow> mstate list) \<Rightarrow> nat \<Rightarrow> nat \<Rightarrow> mstate \<Rightarrow> mstate list" where
  "rep f m n s =
     (if n = 0 then (if m = 0 then [s] else [])
      else
        concat (map (\<lambda>s'. if m = 0 \<and> length (after s') = length (after s) then []
                           else rep f (m - 1) (n - 1) s')
                  (f s))
        @ (if m = 0 then [s] else []))"

declare rep.simps [simp del]

definition set_cap :: "nat \<Rightarrow> mstate \<Rightarrow> mstate \<Rightarrow> mstate" where
  "set_cap n s s' =
     MState (before s') (after s')
       ((n, take (length (after s) - length (after s')) (after s)) # caps s')"

primrec rmatch :: "rx \<Rightarrow> mstate \<Rightarrow> mstate list" where
  "rmatch (Cls p) s =
     (case after s of
        [] \<Rightarrow> []
      | c # cs \<Rightarrow> if p c then [MState (c # before s) cs (caps s)] else [])"
| "rmatch Eps s = [s]"
| "rmatch (Seq a b) s = concat (map (rmatch b) (rmatch a s))"
| "rmatch (Alt a b) s = rmatch a s @ rmatch b s"
| "rmatch (Star r) s = star (rmatch r) (length (after s)) s"
| "rmatch (Rep m n r) s = rep (rmatch r) m n s"
| "rmatch (Grp n r) s = map (set_cap n s) (rmatch r s)"
| "rmatch (Bnd w) s = (if at_boundary w s then [s] else [])"
| "rmatch Bol s = (if before s = [] then [s] else [])"
| "rmatch Eol s = (if after s = [] then [s] else [])"

text \<open>Literal text, compared exactly or (flags \<open>iu\<close>) after case folding.\<close>

definition chr :: "jschar \<Rightarrow> rx" where
  "chr c = Cls (\<lambda>x. x = c)"

definition lit :: "jsstring \<Rightarrow> rx" where
  "lit s = foldr (\<lambda>c r. Seq (chr c) r) s Eps"

definition chr_iu :: "jschar \<Rightarrow> rx" where
  "chr_iu c = Cls (\<lambda>x. fold_cu x = fold_cu c)"

definition lit_iu :: "jsstring \<Rightarrow> rx" where
  "lit_iu s = foldr (\<lambda>c r. Seq (chr_iu c) r) s Eps"

fun alts :: "rx list \<Rightarrow> rx" where
  "alts [] = Eps"
| "alts [r] = r"
| "alts (r # q # rs) = Alt r (alts (q # rs))"

definition plus :: "rx \<Rightarrow> rx" where
  "plus r = Seq r (Star r)"

definition seqs :: "rx list \<Rightarrow> rx" where
  "seqs rs = foldr Seq rs Eps"

text \<open>
  \<open>s.match(r)\<close> and \<open>r.test(s)\<close> without the flag \<open>g\<close>: the first start position, from the
  left, at which the matcher succeeds. The result is the text before the match (reversed)
  and the position at the end of the match.
\<close>

fun rx_search :: "rx \<Rightarrow> jsstring \<Rightarrow> jsstring \<Rightarrow> (jsstring \<times> mstate) option" where
  "rx_search r b [] = (case rmatch r (MState b [] []) of e # _ \<Rightarrow> Some (b, e) | [] \<Rightarrow> None)"
| "rx_search r b (c # cs) =
     (case rmatch r (MState b (c # cs) []) of
        e # _ \<Rightarrow> Some (b, e)
      | [] \<Rightarrow> rx_search r (c # b) cs)"

definition rx_exec :: "rx \<Rightarrow> jsstring \<Rightarrow> mstate option" where
  "rx_exec r s = map_option snd (rx_search r [] s)"

definition rx_test :: "rx \<Rightarrow> jsstring \<Rightarrow> bool" where
  "rx_test r s = (rx_exec r s \<noteq> None)"

text \<open>\<open>m[n]\<close>: the text of group \<open>n\<close>, \<open>None\<close> for \<open>undefined\<close>.\<close>

definition group :: "mstate \<Rightarrow> nat \<Rightarrow> jsstring option" where
  "group m n = map_of (caps m) n"

definition group_str :: "mstate \<Rightarrow> nat \<Rightarrow> jsstring" where
  "group_str m n = (case group m n of Some t \<Rightarrow> t | None \<Rightarrow> [])"

text \<open>
  \<open>s.replace(r, repl)\<close> with the flag \<open>g\<close> and a replacement without \<open>$\<close>: every match, from
  the left, is replaced; after a match that consumed nothing the next code unit is copied.
\<close>

fun rx_replace_from :: "rx \<Rightarrow> jsstring \<Rightarrow> jsstring \<Rightarrow> jsstring \<Rightarrow> jsstring" where
  "rx_replace_from r repl b [] =
     (case rmatch r (MState b [] []) of e # _ \<Rightarrow> repl | [] \<Rightarrow> [])"
| "rx_replace_from r repl b (c # cs) =
     (case rmatch r (MState b (c # cs) []) of
        e # _ \<Rightarrow>
          if length (after e) < length (c # cs)
          then repl @ rx_replace_from r repl (before e) (after e)
          else repl @ c # rx_replace_from r repl (c # b) cs
      | [] \<Rightarrow> c # rx_replace_from r repl (c # b) cs)"

definition rx_replace_all :: "rx \<Rightarrow> jsstring \<Rightarrow> jsstring \<Rightarrow> jsstring" where
  "rx_replace_all r repl s = rx_replace_from r repl [] s"

text \<open>
  \<open>s.split(r)\<close> for a pattern without groups: the pieces between the matches. A match that
  consumes nothing does not split; the patterns split on below never match the empty string.
\<close>

fun rx_split_from :: "rx \<Rightarrow> jsstring \<Rightarrow> jsstring \<Rightarrow> jsstring \<Rightarrow> jsstring list" where
  "rx_split_from r piece b [] = [rev piece]"
| "rx_split_from r piece b (c # cs) =
     (case rmatch r (MState b (c # cs) []) of
        e # _ \<Rightarrow>
          if length (after e) < length (c # cs)
          then rev piece # rx_split_from r [] (before e) (after e)
          else rx_split_from r (c # piece) (c # b) cs
      | [] \<Rightarrow> rx_split_from r (c # piece) (c # b) cs)"

definition rx_split :: "rx \<Rightarrow> jsstring \<Rightarrow> jsstring list" where
  "rx_split r s = (if s = [] then (if rmatch r (MState [] [] []) = [] then [[]] else [])
                   else rx_split_from r [] [] s)"

section \<open>JavaScript values used by the premium calculator\<close>

text \<open>
  A JavaScript number is a finite value, NaN or an infinity. Finite values are modelled by
  exact rationals: the binary rounding of IEEE doubles is not modelled, and no theorem below
  depends on a digit that rounding could change.
\<close>

datatype jsnum = Fin rat | NaN | PosInf | NegInf

definition isFinite :: "jsnum \<Rightarrow> bool" where
  "isFinite x = (case x of Fin _ \<Rightarrow> True | _ \<Rightarrow> False)"

text \<open>The comparisons \<open>x < y\<close> and \<open>x <= y\<close> of JavaScript: false as soon as one side is NaN.\<close>

fun num_lt :: "jsnum \<Rightarrow> jsnum \<Rightarrow> bool" where
  "num_lt NaN _ = False"
| "num_lt _ NaN = False"
| "num_lt (Fin a) (Fin b) = (a < b)"
| "num_lt (Fin a) PosInf = True"
| "num_lt (Fin a) NegInf = False"
| "num_lt PosInf _ = False"
| "num_lt NegInf (Fin b) = True"
| "num_lt NegInf PosInf = True"
| "num_lt NegInf NegInf = False"

fun num_le :: "jsnum \<Rightarrow> jsnum \<Rightarrow> bool" where
  "num_le NaN _ = False"
| "num_le _ NaN = False"
| "num_le (Fin a) (Fin b) = (a \<le> b)"
| "num_le (Fin a) PosInf = True"
| "num_le (Fin a) NegInf = False"
| "num_le PosInf PosInf = True"
| "num_le PosInf _ = False"
| "num_le NegInf _ = True"

text \<open>
  The values that reach the \<open>city\<close> and \<open>coverageLevel\<close> arguments: \<open>null\<close>, a string, or
  the function \<open>Object\<close>, which is what a lookup of the key \<open>constructor\<close> in an object literal
  returns (the property is inherited from \<open>Object.prototype\<close>).
\<close>

datatype jsval = VNull | VStr jsstring | VObjectCtor

definition truthy :: "jsval \<Rightarrow> bool" where
  "truthy v = (case v of VNull \<Rightarrow> False | VStr s \<Rightarrow> s \<noteq> [] | VObjectCtor \<Rightarrow> True)"

definition to_String :: "jsval \<Rightarrow> jsstring" where
  "to_String v =
     (case v of VNull \<Rightarrow> str ''null'' | VStr s \<Rightarrow> s
      | VObjectCtor \<Rightarrow> str ''function Object() { [native code] }'')"

text \<open>
  Property lookup \<open>obj[key]\<close> in an object literal: an own property, else a property inherited
  from \<open>Object.prototype\<close> (a function or an object, never a number), else \<open>undefined\<close>.
\<close>

definition object_prototype_keys :: "jsstring list" where
  "object_prototype_keys =
     [str ''constructor'', str ''__defineGetter__'', str ''__defineSetter__'',
      str ''hasOwnProperty'', str ''__lookupGetter__'', str ''__lookupSetter__'',
      str ''isPrototypeOf'', str ''propertyIsEnumerable'', str ''toString'', str ''valueOf'',
      str ''__proto__'', str ''toLocaleString'']"

datatype 'v lookup = Own 'v | Inherited | Undefined

definition obj_get :: "(jsstring \<times> 'v) list \<Rightarrow> jsstring \<Rightarrow> 'v lookup" where
  "obj_get tbl k =
     (case map_of tbl k of
        Some v \<Rightarrow> Own v
      | None \<Rightarrow> if k \<in> set object_prototype_keys then Inherited else Undefined)"

section \<open>premium.js\<close>

definition normalizeCoverageLevel :: "jsstring \<Rightarrow> jsstring option" where
  "normalizeCoverageLevel s =
     (let t = toLowerCase s in
      if str_includes t (str ''polni'') then Some (str ''polni_kasko'')
      else if str_includes t (str ''delni'') then Some (str ''delni_kasko'')
      else if str_includes t (str ''osnov'') then Some (str ''osnovno'')
      else None)"

datatype error = Error jsstring

text \<open>A factor of the breakdown is a number, or the inherited object a lookup returned.\<close>

datatype factor = FNum rat | FObject

record breakdown =
  base :: rat
  ageFactor :: rat
  hpFactor :: rat
  cityFactor :: factor
  coverageFactor :: factor

record quote =
  annual_eur :: jsnum
  monthly_eur :: jsnum
  breakdown :: breakdown

definition cityFactorMap :: "(jsstring \<times> rat) list" where
  "cityFactorMap =
     [(str ''ljubljana'', 105 / 100), (str ''maribor'', 103 / 100), (str ''koper'', 102 / 100),
      (str ''celje'', 101 / 100), (str ''kranj'', 102 / 100)]"

definition coverageFactorMap :: "(jsstring \<times> rat) list" where
  "coverageFactorMap =
     [(str ''osnovno'', 1), (str ''delni_kasko'', 128 / 100), (str ''polni_kasko'', 155 / 100)]"

text \<open>\<open>Math.round\<close> rounds to the nearest integer, a tie towards plus infinity.\<close>

definition math_round :: "rat \<Rightarrow> int" where
  "math_round x = \<lfloor>x + 1 / 2\<rfloor>"

text \<open>A product with an object operand is NaN.\<close>

definition times_factor :: "jsnum \<Rightarrow> factor \<Rightarrow> jsnum" where
  "times_factor x f =
     (case (x, f) of (Fin a, FNum b) \<Rightarrow> Fin (a * b) | _ \<Rightarrow> NaN)"

definition round_num :: "jsnum \<Rightarrow> jsnum" where
  "round_num x = (case x of Fin a \<Rightarrow> Fin (of_int (math_round a)) | y \<Rightarrow> y)"

definition div_num :: "jsnum \<Rightarrow> rat \<Rightarrow> jsnum" where
  "div_num x d = (case x of Fin a \<Rightarrow> Fin (a / d) | y \<Rightarrow> y)"

definition fin_val :: "jsnum \<Rightarrow> rat" where
  "fin_val x = (case x of Fin a \<Rightarrow> a | _ \<Rightarrow> 0)"

definition calculate_premium :: "jsnum \<Rightarrow> jsnum \<Rightarrow> jsval \<Rightarrow> jsval \<Rightarrow> error + quote" where
  "calculate_premium vehicleAge horsepower city coverageLevel =
     (let lvl = (if truthy coverageLevel then to_String coverageLevel else []);
          cityStr = (if truthy city then to_String city else str ''Other'')
      in
      if \<not> isFinite vehicleAge \<or> num_lt vehicleAge (Fin 0)
        then Inl (Error (str ''vehicleAge must be a non-negative number''))
      else if \<not> isFinite horsepower \<or> num_le horsepower (Fin 0)
        then Inl (Error (str ''horsepower must be a positive number''))
      else if lvl = [] then Inl (Error (str ''coverageLevel is required''))
      else
        let age = fin_val vehicleAge;
            hp = fin_val horsepower;
            b = 220;
            af = max (78 / 100) (min (115 / 100) (110 / 100 - age * (2 / 100)));
            hf = max (85 / 100) (min (160 / 100) (85 / 100 + hp / 200));
            cityKey = toLowerCase cityStr;
            cf = (case obj_get cityFactorMap cityKey of
                    Own v \<Rightarrow> if v = 0 then FNum 1 else FNum v
                  | Inherited \<Rightarrow> FObject
                  | Undefined \<Rightarrow> FNum 1);
            vf = (case obj_get coverageFactorMap lvl of
                    Own v \<Rightarrow> FNum v
                  | Inherited \<Rightarrow> FObject
                  | Undefined \<Rightarrow> FNum 1);
            annual = round_num (times_factor (times_factor (Fin (b * af * hf)) cf) vf);
            monthly = round_num (div_num annual 12)
        in Inr \<lparr>annual_eur = annual, monthly_eur = monthly,
                 breakdown = \<lparr>base = b, ageFactor = af, hpFactor = hf,
                               cityFactor = cf, coverageFactor = vf\<rparr>\<rparr>)"

definition is_error :: "error + 'a \<Rightarrow> bool" where
  "is_error r = (case r of Inl _ \<Rightarrow> True | Inr _ \<Rightarrow> False)"

text \<open>The annual premium of a call, NaN standing in when the call throws.\<close>

definition annual_of :: "error + quote \<Rightarrow> jsnum" where
  "annual_of r = (case r of Inl _ \<Rightarrow> NaN | Inr q \<Rightarrow> annual_eur q)"

text \<open>The key under which \<open>calculate_premium\<close> looks the city up.\<close>

definition city_key :: "jsval \<Rightarrow> jsstring" where
  "city_key city = toLowerCase (if truthy city then to_String city else str ''Other'')"

section \<open>The server: coverage tier\<close>

definition extractCoverageLevel :: "jsstring \<Rightarrow> bool \<Rightarrow> jsstring option" where
  "extractCoverageLevel text wantsPremium =
     (case normalizeCoverageLevel text of
        Some n \<Rightarrow> Some n
      | None \<Rightarrow>
          let t = toLowerCase text in
          if str_includes t (str ''osnov'') then Some (str ''osnovno'')
          else if str_includes t (str ''delni'') then Some (str ''delni_kasko'')
          else if str_includes t (str ''polni'') then Some (str ''polni_kasko'')
          else if wantsPremium \<and> str_includes t (str ''kasko'') then Some (str ''polni_kasko'')
          else None)"

section \<open>The server: text normalisation and the numeral parser\<close>

definition rx_zdeset :: rx where
  "rx_zdeset = seqs [Bnd is_word, lit (str ''zdeset''), Bnd is_word]"

definition rx_not_letter_mark_digit_space :: rx where
  "rx_not_letter_mark_digit_space =
     Cls (\<lambda>c. \<not> (is_letter c \<or> is_mark c \<or> is_digit c \<or> is_space c))"

definition rx_spaces :: rx where
  "rx_spaces = plus (Cls is_space)"

definition cleanTextForNumber :: "jsstring \<Rightarrow> jsstring" where
  "cleanTextForNumber s =
     trim (rx_replace_all rx_spaces (str '' '')
       (rx_replace_all rx_not_letter_mark_digit_space (str '' '')
         (rx_replace_all rx_zdeset (str ''deset'')
           (normalizeNFKC (toLowerCase s)))))"

definition normalizeWord :: "jsstring \<Rightarrow> jsstring" where
  "normalizeWord w = trim (toLowerCase w)"

text \<open>\<open>w.replace(/u/g, "v")\<close>.\<close>

definition u_to_v :: "jsstring \<Rightarrow> jsstring" where
  "u_to_v w = map (\<lambda>c. if c = 117 then 118 else c) w"

definition isWordLike :: "jsstring \<Rightarrow> jsstring \<Rightarrow> bool" where
  "isWordLike word target =
     (let w = normalizeWord word; t = normalizeWord target in
      if w = t then True
      else if starts_with w (take 3 t) \<and> 3 \<le> length w then True
      else if u_to_v w = u_to_v t then True
      else False)"

text \<open>
  The tables of the parser, in the order of the source: \<open>Object.entries\<close> lists the keys in
  the order in which they were written.
\<close>

definition ones :: "(jsstring \<times> nat) list" where
  "ones =
     [(str ''ni'' @ [269], 0), (str ''nic'', 0), (str ''nula'', 0),
      (str ''ena'', 1), (str ''en'', 1), (str ''eno'', 1),
      (str ''dva'', 2), (str ''dve'', 2),
      (str ''tri'', 3),
      ([353] @ str ''tiri'', 4), (str ''stiri'', 4),
      (str ''pet'', 5),
      ([353] @ str ''est'', 6), (str ''sest'', 6),
      (str ''sedem'', 7),
      (str ''osem'', 8),
      (str ''devet'', 9)]"

definition teens :: "(jsstring \<times> nat) list" where
  "teens =
     [(str ''deset'', 10),
      (str ''enajst'', 11),
      (str ''dvanajst'', 12),
      (str ''trinajst'', 13),
      ([353] @ str ''tirinajst'', 14), (str ''stirinajst'', 14),
      (str ''petnajst'', 15),
      ([353] @ str ''estnajst'', 16), (str ''sestnajst'', 16),
      (str ''sedemnajst'', 17),
      (str ''osemnajst'', 18),
      (str ''devetnajst'', 19)]"

definition tens :: "(jsstring \<times> nat) list" where
  "tens =
     [(str ''dvajset'', 20),
      (str ''trideset'', 30),
      ([353] @ str ''tirideset'', 40), (str ''stirideset'', 40),
      (str ''petdeset'', 50), (str ''petindeset'', 50),
      ([353] @ str ''estdeset'', 60), (str ''sestdeset'', 60), ([353] @ str ''ezdeset'', 60),
      (str ''sezdeset'', 60), (str ''sestindeset'', 60),
      (str ''sedemdeset'', 70), (str ''sedemindeset'', 70),
      (str ''osemdeset'', 80), (str ''osemindeset'', 80),
      (str ''devetdeset'', 90), (str ''devetindeset'', 90)]"

definition hundreds :: "(jsstring \<times> nat) list" where
  "hundreds =
     [(str ''devetsto'', 900),
      (str ''osemsto'', 800),
      (str ''sedemsto'', 700),
      ([353] @ str ''eststo'', 600), (str ''seststo'', 600),
      (str ''petsto'', 500),
      ([353] @ str ''tiristo'', 400), (str ''stiristo'', 400),
      (str ''tristo'', 300),
      (str ''dvesto'', 200),
      (str ''dve sto'', 200),
      (str ''sto'', 100)]"

text \<open>
  What the parser returns besides \<open>null\<close> (\<open>None\<close> below): a number, or, when a word of the
  text is the name of a property the table \<open>ones\<close> inherits, NaN or a string that is no
  numeral. The two are one value here: both differ from \<open>null\<close> and fail every numeric
  comparison, and the callers do nothing else with them.
\<close>

datatype parsed = PNum nat | PJunk

definition rx_digit_run :: rx where
  "rx_digit_run = seqs [Bnd is_word, Grp 1 (Rep 1 4 (Cls is_digit)), Bnd is_word]"

text \<open>The pattern built from a tens word \<open>k\<close>, with the flags \<open>iu\<close>.\<close>

definition rx_tens_tail :: "jsstring \<Rightarrow> rx" where
  "rx_tens_tail k =
     seqs [Bnd is_word_iu, lit_iu k, Bnd is_word_iu,
           Rep 0 1 (Alt (seqs [rx_spaces, lit_iu (str ''in''), rx_spaces]) rx_spaces),
           Grp 1 (plus (Cls (\<lambda>c. is_letter c \<or> is_mark c))),
           Bnd is_word_iu]"

text \<open>The two patterns built from a hundreds word, with the flags \<open>iu\<close>.\<close>

definition rx_hundred_test :: "jsstring \<Rightarrow> rx" where
  "rx_hundred_test hWord =
     seqs [Grp 1 (Alt Bol (Cls is_space)), lit_iu hWord, Grp 2 (Alt (Cls is_space) Eol)]"

definition rx_hundred_split :: "jsstring \<Rightarrow> rx" where
  "rx_hundred_split hWord = seqs [Bnd is_word_iu, lit_iu hWord, Bnd is_word_iu]"

definition words_of :: "jsstring \<Rightarrow> jsstring list" where
  "words_of s = filter (\<lambda>w. w \<noteq> []) (split_on 32 s)"

definition compound_ones :: "jsstring \<Rightarrow> jsstring \<Rightarrow> (jsstring \<times> nat) option" where
  "compound_ones compacted k =
     find (\<lambda>(oneK, oneV). str_includes compacted (oneK @ str ''in'' @ k)) ones"

definition tens_case :: "jsstring \<Rightarrow> jsstring \<Rightarrow> nat \<Rightarrow> parsed" where
  "tens_case s k v =
     (let compacted = rx_replace_all rx_spaces [] s in
      case compound_ones compacted k of
        Some (oneK, oneV) \<Rightarrow> PNum (v + oneV)
      | None \<Rightarrow>
          (case rx_exec (rx_tens_tail k) s of
             Some m \<Rightarrow>
               let w = toLowerCase (group_str m 1) in
               (case obj_get ones w of
                  Own oneV \<Rightarrow> PNum (v + oneV)
                | Inherited \<Rightarrow> PJunk
                | Undefined \<Rightarrow> if isWordLike w (str ''devet'') then PNum (v + 9) else PNum v)
           | None \<Rightarrow> PNum v))"

fun deset_pairs :: "jsstring list \<Rightarrow> parsed option" where
  "deset_pairs (a # b # ws) =
     (if b = str ''deset'' then
        (case obj_get ones a of
           Own oneV \<Rightarrow> Some (PNum (oneV * 10))
         | Inherited \<Rightarrow> Some PJunk
         | Undefined \<Rightarrow>
             if isWordLike a (str ''devet'') then Some (PNum 90)
             else if isWordLike a (str ''osem'') then Some (PNum 80)
             else if isWordLike a (str ''sedem'') then Some (PNum 70)
             else deset_pairs (b # ws))
      else deset_pairs (b # ws))"
| "deset_pairs ws = None"

definition parseBelow100 :: "jsstring \<Rightarrow> parsed option" where
  "parseBelow100 s =
     (case find (\<lambda>(k, v). str_includes s k) tens of
        Some (k, v) \<Rightarrow> Some (tens_case s k v)
      | None \<Rightarrow>
     (case find (\<lambda>(k, v). str_includes s k) teens of
        Some (k, v) \<Rightarrow> Some (PNum v)
      | None \<Rightarrow>
     (let ws = words_of s in
      case deset_pairs ws of
        Some r \<Rightarrow> Some r
      | None \<Rightarrow>
     (case find (\<lambda>(k, v). str_includes s k) ones of
        Some (k, v) \<Rightarrow> Some (PNum v)
      | None \<Rightarrow>
          if length ws = 1 \<and> isWordLike (hd ws) (str ''devet'') then Some (PNum 9)
          else None))))"

definition hundred_case :: "jsstring \<Rightarrow> jsstring \<Rightarrow> nat \<Rightarrow> parsed" where
  "hundred_case joined hWord hVal =
     (let parts = rx_split (rx_hundred_split hWord) joined;
          after_h = trim (case parts of _ # p # _ \<Rightarrow> p | _ \<Rightarrow> [])
      in
      if after_h = [] then PNum hVal
      else (case parseBelow100 after_h of
              Some (PNum r) \<Rightarrow> PNum (hVal + r)
            | Some PJunk \<Rightarrow> PJunk
            | None \<Rightarrow> PNum hVal))"

definition parseSlNumberRobust :: "jsstring \<Rightarrow> parsed option" where
  "parseSlNumberRobust text =
     (let t = cleanTextForNumber text in
      case rx_exec rx_digit_run t of
        Some digit \<Rightarrow> Some (PNum (digits_val (group_str digit 1)))
      | None \<Rightarrow>
          let words = words_of t in
          if words = [] then None
          else
            let joined = join_with (str '' '') words in
            (case find (\<lambda>(hWord, hVal). rx_test (rx_hundred_test hWord) joined) hundreds of
               Some (hWord, hVal) \<Rightarrow> Some (hundred_case joined hWord hVal)
             | None \<Rightarrow> parseBelow100 joined))"

section \<open>The server: the extractors of age and horsepower\<close>

definition rx_age_unit :: rx where
  "rx_age_unit =
     seqs [Bnd is_word, Grp 1 (Rep 1 2 (Cls is_digit)), Star (Cls is_space),
           Grp 2 (alts [lit (str ''let''), lit (str ''leto''), lit (str ''leti''),
                        lit (str ''letih''), lit (str ''lit''), lit (str ''lita''),
                        lit (str ''liti'')]),
           Bnd is_word]"

definition rx_star_age :: rx where
  "rx_star_age =
     seqs [lit (str ''star''), Star (Cls is_word), Star (Cls is_space),
           Grp 1 (Rep 1 2 (Cls is_digit))]"

definition extractVehicleAge :: "jsstring \<Rightarrow> nat option" where
  "extractVehicleAge text =
     (let t = cleanTextForNumber text in
      case rx_exec rx_age_unit t of
        Some m \<Rightarrow> Some (digits_val (group_str m 1))
      | None \<Rightarrow>
     (case rx_exec rx_star_age t of
        Some m \<Rightarrow> Some (digits_val (group_str m 1))
      | None \<Rightarrow>
     (case parseSlNumberRobust t of
        Some (PNum n) \<Rightarrow> if 0 \<le> n \<and> n \<le> 40 then Some n else None
      | _ \<Rightarrow> None)))"

definition rx_hp_unit :: rx where
  "rx_hp_unit =
     seqs [Bnd is_word, Grp 1 (Rep 2 4 (Cls is_digit)), Star (Cls is_space),
           Grp 2 (alts [lit (str ''km''), lit (str ''konj''), lit (str ''konji''),
                        lit (str ''konjev''), lit (str ''konjska'')]),
           Bnd is_word]"

definition rx_moc_hp :: rx where
  "rx_moc_hp =
     seqs [lit (str ''mo'' @ [269]), Star (Cls is_word), Star (Cls is_space),
           Grp 1 (Rep 2 4 (Cls is_digit))]"

definition extractHorsepower :: "jsstring \<Rightarrow> nat option" where
  "extractHorsepower text =
     (let t = cleanTextForNumber text in
      case rx_exec rx_hp_unit t of
        Some m \<Rightarrow> Some (digits_val (group_str m 1))
      | None \<Rightarrow>
     (case rx_exec rx_moc_hp t of
        Some m \<Rightarrow> Some (digits_val (group_str m 1))
      | None \<Rightarrow>
     (case parseSlNumberRobust t of
        Some (PNum n) \<Rightarrow> if 20 \<le> n \<and> n \<le> 600 then Some n else None
      | _ \<Rightarrow> None)))"

section \<open>The server: yes and no\<close>

definition normYesNo :: "jsstring \<Rightarrow> jsstring" where
  "normYesNo s =
     trim (rx_replace_all rx_spaces (str '' '')
       (rx_replace_all rx_not_letter_mark_digit_space (str '' '')
         (normalizeNFKC (toLowerCase s))))"

definition firstToken :: "jsstring \<Rightarrow> jsstring" where
  "firstToken s =
     (case filter (\<lambda>w. w \<noteq> []) (split_on 32 (normYesNo s)) of w # _ \<Rightarrow> w | [] \<Rightarrow> [])"

definition isAffirmative :: "jsstring \<Rightarrow> bool" where
  "isAffirmative s =
     (let t = normYesNo s; ft = firstToken s in
      if ft = str ''da'' \<or> ft = str ''ja'' then True
      else if starts_with t (str ''seveda'') then True
      else if starts_with t (str ''ok'') then True
      else if starts_with t (str ''lahko'') then True
      else if ft = str ''mhm'' \<or> ft = str ''mhmm'' then True
      else if ft = str ''valda'' then True
      else False)"

definition isNegative :: "jsstring \<Rightarrow> bool" where
  "isNegative s =
     (let t = normYesNo s; ft = firstToken s in
      if ft = str ''ne'' \<or> ft = str ''no'' then True
      else if starts_with t (str ''ne hvala'') then True
      else if starts_with t (str ''ni treba'') then True
      else if ft = str ''nic'' \<or> ft = str ''ni'' @ [269] \<or> ft = str ''nc'' \<or> ft = str ''n'' @ [269]
        then True
      else False)"

section \<open>The server: the city\<close>

definition mentionsCoverage :: "jsstring \<Rightarrow> bool" where
  "mentionsCoverage s =
     (let t = toLowerCase s in
      str_includes t (str ''kasko'') \<or> str_includes t (str ''delni'')
      \<or> str_includes t (str ''polni'') \<or> str_includes t (str ''osnov''))"

definition isProbablyNotCityWord :: "jsstring \<Rightarrow> bool" where
  "isProbablyNotCityWord raw =
     (let t = trim (toLowerCase raw) in
      if str_includes t (str ''kasko'') \<or> str_includes t (str ''osnov'') then True
      else if t = str ''da'' \<or> t = str ''ne'' \<or> t = str ''ja'' then True
      else if length t < 3 then True
      else False)"

text \<open>
  The class \<open>[\p{L}\p{M}\-]\<close>, its complement without the space, and \<open>{3,}\<close>. Case folding
  (flags \<open>iu\<close>) adds no code unit to the class: what folds to a letter is a letter or a mark.
\<close>

definition city_char :: "jschar \<Rightarrow> bool" where
  "city_char c = (is_letter c \<or> is_mark c \<or> c = 45)"

definition rx_not_city_chars :: rx where
  "rx_not_city_chars = plus (Cls (\<lambda>c. \<not> (city_char c \<or> c = 32)))"

definition at_least3 :: "rx \<Rightarrow> rx" where
  "at_least3 r = Seq (Rep 3 3 r) (Star r)"

definition rx_one_word :: rx where
  "rx_one_word = seqs [Bol, at_least3 (Cls city_char), Eol]"

definition rx_prepositions_iu :: rx where
  "rx_prepositions_iu =
     alts [lit_iu (str ''v''), lit_iu (str ''iz''), lit_iu (str ''pri''), lit_iu (str ''blizu''),
           lit_iu (str ''okolica'')]"

definition rx_city_phrase :: rx where
  "rx_city_phrase =
     seqs [Bnd is_word_iu, Grp 1 rx_prepositions_iu, rx_spaces,
           Grp 2 (at_least3 (Cls city_char)),
           Rep 0 1 (seqs [rx_spaces, Grp 3 (at_least3 (Cls city_char))]),
           Rep 0 1 (seqs [rx_spaces, Grp 4 (at_least3 (Cls city_char))])]"

definition cityNormMap :: "(jsstring \<times> jsstring) list" where
  "cityNormMap =
     [(str ''kopru'', str ''Koper''), (str ''koper'', str ''Koper''),
      (str ''ljubljani'', str ''Ljubljana''), (str ''ljubljana'', str ''Ljubljana''),
      (str ''mariboru'', str ''Maribor''), (str ''maribor'', str ''Maribor''),
      (str ''celju'', str ''Celje''), (str ''celje'', str ''Celje''),
      (str ''kranju'', str ''Kranj''), (str ''kranj'', str ''Kranj'')]"

text \<open>
  \<open>cityNormMap[key] || fallback\<close>. The keys looked up are lower case and made of letters,
  marks, hyphens and spaces; \<open>constructor\<close> is the one inherited property name of that shape,
  and its value is the function \<open>Object\<close>.
\<close>

definition city_norm :: "jsstring \<Rightarrow> jsstring \<Rightarrow> jsval" where
  "city_norm key fallback =
     (case obj_get cityNormMap key of
        Own v \<Rightarrow> if v = [] then VStr fallback else VStr v
      | Inherited \<Rightarrow> VObjectCtor
      | Undefined \<Rightarrow> VStr fallback)"

definition extractCity :: "jsstring \<Rightarrow> jsval" where
  "extractCity s =
     (let raw0 = trim s;
          raw = trim (rx_replace_all rx_spaces (str '' '')
                  (rx_replace_all rx_not_city_chars (str '' '') raw0));
          t = toLowerCase raw;
          compacted = rx_replace_all rx_spaces [] t
      in
      if compacted = str ''vseeno'' \<or> compacted = str ''vseno'' \<or> compacted = str ''karkoli''
         \<or> compacted = str ''kjerkoli'' \<or> str_includes t (str ''ni pomembno'')
         \<or> str_includes t (str ''nima veze'')
        then VStr (str ''Other'')
      else if mentionsCoverage raw \<or> extractCoverageLevel raw False \<noteq> None then VNull
      else if isProbablyNotCityWord raw then VNull
      else if parseSlNumberRobust t \<noteq> None then VNull
      else if rx_test rx_one_word raw then city_norm t raw
      else
        (case rx_exec rx_city_phrase raw of
           Some m \<Rightarrow>
             let parts = filter (\<lambda>w. w \<noteq> []) (map (group_str m) [2, 3, 4]);
                 joined = join_with (str '' '') parts;
                 joinedKey = toLowerCase joined
             in city_norm joinedKey joined
         | None \<Rightarrow> VNull))"

section \<open>The server: the premium draft\<close>

text \<open>
  \<open>lastPremium\<close> holds the vehicle of the last quote; a draft holds a vehicle, the coverage
  tier and the slot that was asked for. \<open>null\<close> is \<open>None\<close> for a number or a slot name and
  \<open>VNull\<close> for a city or a tier.
\<close>

record vehicle =
  vehicleAge :: "nat option"
  horsepower :: "nat option"
  city :: jsval

record draft = vehicle +
  coverageLevel :: jsval
  pendingSlot :: "jsstring option"

definition missingSlot :: "draft \<Rightarrow> jsstring option" where
  "missingSlot p =
     (if vehicleAge p = None then Some (str ''vehicleAge'')
      else if horsepower p = None then Some (str ''horsepower'')
      else if \<not> truthy (coverageLevel p) then Some (str ''coverageLevel'')
      else None)"

definition questionForSlot :: "jsstring \<Rightarrow> jsstring option" where
  "questionForSlot slot =
     (if slot = str ''vehicleAge'' then Some (str ''Koliko je star avto (v letih)?'')
      else if slot = str ''horsepower''
        then Some (str ''Koliko ima avto konjskih mo'' @ [269] @ str ''i (KM)?'')
      else if slot = str ''coverageLevel''
        then Some (str ''Katero kritje '' @ [382]
                   @ str ''elite: osnovno, delni kasko ali polni kasko?'')
      else None)"

definition formatCoverageLabel :: "jsval \<Rightarrow> jsval" where
  "formatCoverageLabel lvl =
     (if lvl = VStr (str ''osnovno'') then VStr (str ''osnovno zavarovanje'')
      else if lvl = VStr (str ''delni_kasko'') then VStr (str ''delni kasko'')
      else if lvl = VStr (str ''polni_kasko'') then VStr (str ''polni kasko'')
      else lvl)"

section \<open>The server: the intent of an utterance\<close>

definition rx_info_patterns :: "rx list" where
  "rx_info_patterns =
     [seqs [Bol, lit (str ''kaj''), Bnd is_word],
      seqs [Bol, lit (str ''kaj pomeni''), Bnd is_word],
      seqs [Bol, lit (str ''kaj je''), Bnd is_word],
      seqs [Bol, lit (str ''kako''), Bnd is_word],
      seqs [Bol, lit (str ''kdaj''), Bnd is_word],
      seqs [Bol, lit (str ''kje''), Bnd is_word],
      seqs [Bol, lit (str ''zakaj''), Bnd is_word],
      lit (str ''pomeni''), lit (str ''razlika''), lit (str ''krije''), lit (str ''kritje''),
      lit (str ''postopek''), lit (str ''prijavim '' @ [353] @ str ''kodo''),
      lit (str ''od'' @ [353] @ str ''kodnin''), lit (str ''odskodnin''), lit (str ''dokaz''),
      lit (str ''kaj potrebujem''), lit (str ''kaj rabim''), lit (str ''kateri dokument''),
      lit ([353] @ str ''kod''), lit (str ''skod'')]"

definition looksLikeInfoQuestion :: "jsstring \<Rightarrow> bool" where
  "looksLikeInfoQuestion s =
     (let t = trim (toLowerCase s) in list_ex (\<lambda>p. rx_test p t) rx_info_patterns)"

definition hasCalcWording :: "jsstring \<Rightarrow> bool" where
  "hasCalcWording s =
     (let t = toLowerCase s in
      str_includes t (str ''izra'' @ [269] @ str ''un'')
      \<or> str_includes t (str ''izracun'')
      \<or> str_includes t (str ''izra'' @ [269] @ str ''unaj'')
      \<or> str_includes t (str ''izracunaj'')
      \<or> str_includes t (str ''premija'')
      \<or> str_includes t (str ''koliko stane'')
      \<or> str_includes t (str ''koliko bi stal'')
      \<or> str_includes t (str ''cena'')
      \<or> str_includes t (str ''stro'' @ [353] @ str ''ek'')
      \<or> str_includes t (str ''stane'')
      \<or> str_includes t (str ''koliko pride''))"

text \<open>
  A letter of a pattern with the flag \<open>i\<close> and without \<open>u\<close>: code units are compared after
  \<open>toUpperCase\<close>, and a code unit outside ASCII is never mapped into ASCII, so an ASCII letter
  of the pattern matches itself in either case and nothing else.
\<close>

definition canon_i :: "jschar \<Rightarrow> jschar" where
  "canon_i c = (if 97 \<le> c \<and> c \<le> 122 then c - 32 else c)"

definition lit_i :: "jsstring \<Rightarrow> rx" where
  "lit_i s = foldr (\<lambda>c r. Seq (Cls (\<lambda>x. canon_i x = canon_i c)) r) s Eps"

definition rx_age_hint :: rx where
  "rx_age_hint =
     seqs [Grp 1 (Rep 1 2 (Cls is_digit)), Star (Cls is_space),
           Grp 2 (alts [lit_i (str ''let''), lit_i (str ''leto''), lit_i (str ''leti''),
                        lit_i (str ''letih''), lit_i (str ''lit'')]),
           Bnd is_word]"

definition rx_hp_hint :: rx where
  "rx_hp_hint =
     seqs [Grp 1 (Rep 2 4 (Cls is_digit)), Star (Cls is_space),
           Grp 2 (alts [lit_i (str ''km''), lit_i (str ''konj''), lit_i (str ''konji''),
                        lit_i (str ''konjev''), lit_i (str ''konjska'')]),
           Bnd is_word]"

definition rx_city_hint_iu :: rx where
  "rx_city_hint_iu =
     seqs [Bnd is_word_iu, Grp 1 rx_prepositions_iu, rx_spaces, at_least3 (Cls city_char)]"

definition rx_city_hint_i :: rx where
  "rx_city_hint_i =
     seqs [Bnd is_word,
           Grp 1 (alts [lit_i (str ''v''), lit_i (str ''iz''), lit_i (str ''pri''),
                        lit_i (str ''blizu''), lit_i (str ''okolica'')]),
           rx_spaces]"

definition hasAnyPremiumSlotHints :: "jsstring \<Rightarrow> bool" where
  "hasAnyPremiumSlotHints s =
     (let t = toLowerCase s;
          hasAge = (rx_test rx_age_hint t \<or> str_includes t (str ''star ''));
          hasHp = (rx_test rx_hp_hint t \<or> str_includes t (str ''konj''));
          hasCity = rx_test rx_city_hint_iu s
      in hasAge \<or> hasHp \<or> hasCity)"

definition wantsComparison :: "jsstring \<Rightarrow> bool" where
  "wantsComparison s =
     (let t = toLowerCase s in
      str_includes t (str ''primerjaj'')
      \<or> str_includes t (str ''primerjava'')
      \<or> str_includes t (str ''primerjavo'')
      \<or> str_includes t (str ''daj '' @ [353] @ str ''e'')
      \<or> str_includes t ([353] @ str ''e delni'')
      \<or> str_includes t ([353] @ str ''e polni'')
      \<or> str_includes t ([353] @ str ''e osnovno'')
      \<or> str_includes t (str ''namesto'')
      \<or> str_includes t (str ''tudi delni'')
      \<or> str_includes t (str ''tudi polni''))"

definition isNewPremiumRequest :: "jsstring \<Rightarrow> bool" where
  "isNewPremiumRequest s =
     (let t = toLowerCase s;
          hasAgeHint = (rx_test rx_age_hint t \<or> str_includes t (str ''star ''));
          hasHpHint = (rx_test rx_hp_hint t \<or> str_includes t (str ''konj''));
          hasCityHint = rx_test rx_city_hint_i t;
          hasVehicle = (str_includes t (str ''avto'') \<or> str_includes t (str ''vozilo''))
      in hasVehicle \<and> (hasAgeHint \<or> hasHpHint \<or> hasCityHint))"

definition wantsNewVehicle :: "jsstring \<Rightarrow> bool" where
  "wantsNewVehicle s =
     (let t = toLowerCase s in
      str_includes t (str ''nov izra'' @ [269] @ str ''un'')
      \<or> str_includes t (str ''nov izracun'')
      \<or> str_includes t (str ''novo vozilo'')
      \<or> str_includes t (str ''nov avto'')
      \<or> str_includes t (str ''novo avto'')
      \<or> str_includes t (str ''drugo vozilo'')
      \<or> str_includes t (str ''drug avto''))"

definition isLikelyAnswerToComparison :: "jsstring \<Rightarrow> bool" where
  "isLikelyAnswerToComparison s =
     (isAffirmative s \<or> isNegative s \<or> extractCoverageLevel s True \<noteq> None
      \<or> mentionsCoverage s)"

section \<open>The server: sessions\<close>

datatype role = System | User | Assistant

type_synonym message = "role \<times> jsstring"

record state =
  premium :: "draft option"
  lastPremium :: "vehicle option"
  comparedLevels :: "jsval set"
  pendingComparison :: "jsstring list option"

record session =
  messages :: "message list"
  state :: state

definition isPremiumIntent :: "jsstring \<Rightarrow> state \<Rightarrow> bool" where
  "isPremiumIntent s st =
     (if pendingComparison st \<noteq> None then True
      else
        let infoQ = looksLikeInfoQuestion s;
            calcW = hasCalcWording s;
            cov = mentionsCoverage s;
            slots = hasAnyPremiumSlotHints s;
            cmp = wantsComparison s
        in
        if infoQ \<and> \<not> calcW then False
        else if calcW then True
        else if cov \<and> slots then True
        else if cmp \<and> lastPremium st \<noteq> None then True
        else False)"

definition new_session :: session where
  "new_session =
     \<lparr>messages =
        [(System,
          str ''Ti si prijazen inbound AI voice agent zavarovalnice. ''
          @ str ''Odgovarjaj v sloven'' @ [353, 269] @ str ''ini. '' @ [268]
          @ str ''e je izjava nejasna, postavi eno kratko dodatno vpra'' @ [353] @ str ''anje. ''
          @ str ''Odgovori naj bodo kratki, prakti'' @ [269] @ str ''ni in razumljivi.'')],
      state = \<lparr>premium = None, lastPremium = None, comparedLevels = {},
               pendingComparison = None\<rparr>\<rparr>"

text \<open>The map of the sessions, \<open>getSession\<close> and the route \<open>/reset\<close>.\<close>

type_synonym sessions = "jsstring \<rightharpoonup> session"

definition getSession :: "sessions \<Rightarrow> jsstring \<Rightarrow> sessions \<times> session" where
  "getSession store sessionId =
     (case store sessionId of
        Some sess \<Rightarrow> (store, sess)
      | None \<Rightarrow> (store(sessionId \<mapsto> new_session), new_session))"

definition post_reset :: "sessions \<Rightarrow> jsstring \<Rightarrow> sessions" where
  "post_reset store sessionId = store(sessionId := None)"

section \<open>The server: the collaborators and the response\<close>

text \<open>
  The documents of the knowledge base, and the four collaborators of a turn: transcription,
  answering and synthesis, which call a remote service and may throw, and the retrieval of
  \<open>rag.js\<close>. They are parameters of the handler: every theorem below holds for all of them.
\<close>

record doc =
  doc_id :: jsstring
  doc_text :: jsstring

type_synonym bytes = "nat list"

record env =
  sttTranscribe :: "bytes \<Rightarrow> error + jsstring"
  llmReply :: "message list \<Rightarrow> error + jsstring"
  ttsSpeak :: "jsstring \<Rightarrow> error + bytes"
  retrieveDocs :: "jsstring \<Rightarrow> doc list \<Rightarrow> nat \<Rightarrow> doc list"
  docs :: "doc list"

text \<open>\<open>Buffer.toString("base64")\<close>.\<close>

definition b64 :: "nat \<Rightarrow> jschar" where
  "b64 n = (if n < 26 then 65 + n else if n < 52 then 97 + (n - 26)
            else if n < 62 then 48 + (n - 52) else if n = 62 then 43 else 47)"

fun base64 :: "bytes \<Rightarrow> jsstring" where
  "base64 [] = []"
| "base64 [a] = [b64 (a div 4), b64 (a mod 4 * 16), 61, 61]"
| "base64 [a, b] = [b64 (a div 4), b64 (a mod 4 * 16 + b div 16), b64 (b mod 16 * 4), 61]"
| "base64 (a # b # c # bs) =
     [b64 (a div 4), b64 (a mod 4 * 16 + b div 16), b64 (b mod 16 * 4 + c div 64),
      b64 (c mod 64)] @ base64 bs"

text \<open>
  The body of a successful response. The field \<open>premium_pending\<close> is the key \<open>premium\<close> of
  the response: the draft, sent with \<open>pending: true\<close>.
\<close>

record extra =
  premium_pending :: "draft option"
  premiumResult :: "quote option"
  ragDocs :: "jsstring list option"

record reply = extra +
  transcript :: jsstring
  replyText :: jsstring
  replyAudioBase64 :: jsstring

datatype response = Status400 jsstring | Status500 jsstring | Json reply

definition no_extra :: extra where
  "no_extra = \<lparr>premium_pending = None, premiumResult = None, ragDocs = None\<rparr>"

definition respondWithTTS :: "env \<Rightarrow> jsstring \<Rightarrow> jsstring \<Rightarrow> extra \<Rightarrow> error + reply" where
  "respondWithTTS e heard answer x =
     (case ttsSpeak e answer of
        Inl err \<Rightarrow> Inl err
      | Inr mp3 \<Rightarrow>
          Inr \<lparr>premium_pending = premium_pending x, premiumResult = premiumResult x,
               ragDocs = ragDocs x, transcript = heard, replyText = answer,
               replyAudioBase64 = str ''data:audio/mpeg;base64,'' @ base64 mp3\<rparr>)"

text \<open>The \<open>catch\<close> of the handler: status 500 with \<open>String(e?.message || e)\<close>.\<close>

definition failure :: "error \<Rightarrow> response" where
  "failure err = (case err of Error m \<Rightarrow> Status500 (if m = [] then str ''Error'' else m))"

text \<open>
  \<open>messages.push({ role: "assistant", content: replyText }); return await
  respondWithTTS(...)\<close>, the end of every path of the handler that answers: the message is in
  the session before the synthesis is called.
\<close>

definition push :: "role \<Rightarrow> jsstring \<Rightarrow> session \<Rightarrow> session" where
  "push r c sess = sess\<lparr>messages := messages sess @ [(r, c)]\<rparr>"

definition answer_with :: "env \<Rightarrow> session \<Rightarrow> jsstring \<Rightarrow> jsstring \<Rightarrow> extra \<Rightarrow> session \<times> response" where
  "answer_with e sess heard answer x =
     (push Assistant answer sess,
      case respondWithTTS e heard answer x of Inl err \<Rightarrow> failure err | Inr r \<Rightarrow> Json r)"

section \<open>The server: numbers in a reply\<close>

text \<open>
  \<open>String(n)\<close> for a natural number, for a slot of the draft, and for a number of a quote;
  the two numbers of a quote are results of \<open>Math.round\<close>, so integers or NaN.
\<close>

fun digits_of :: "nat \<Rightarrow> jsstring" where
  "digits_of n = (if n < 10 then [48 + n] else digits_of (n div 10) @ [48 + n mod 10])"

declare digits_of.simps [simp del]

definition slot_to_String :: "nat option \<Rightarrow> jsstring" where
  "slot_to_String v = (case v of None \<Rightarrow> str ''null'' | Some n \<Rightarrow> digits_of n)"

definition num_to_String :: "jsnum \<Rightarrow> jsstring" where
  "num_to_String x =
     (case x of
        Fin q \<Rightarrow> if q < 0 then 45 # digits_of (nat \<lceil>- q\<rceil>) else digits_of (nat \<lfloor>q\<rfloor>)
      | NaN \<Rightarrow> str ''NaN''
      | PosInf \<Rightarrow> str ''Infinity''
      | NegInf \<Rightarrow> str ''-Infinity'')"

text \<open>\<open>Number(v)\<close> for a slot of the draft: \<open>null\<close> is 0.\<close>

definition slot_to_Number :: "nat option \<Rightarrow> jsnum" where
  "slot_to_Number v = (case v of None \<Rightarrow> Fin 0 | Some n \<Rightarrow> Fin (of_nat n))"

section \<open>The server: a turn\<close>

text \<open>
  The handler of \<open>/turn\<close> works on the session object in place. Here every step returns the
  session it leaves; when a step throws, the session returned is the one the steps before it
  left, which is what the \<open>catch\<close> of the handler finds in the map of the sessions.
\<close>

definition new_vehicle_reset :: "state \<Rightarrow> state" where
  "new_vehicle_reset st =
     st\<lparr>lastPremium := None, comparedLevels := {}, pendingComparison := None, premium := None\<rparr>"

definition new_premium_reset :: "state \<Rightarrow> state" where
  "new_premium_reset st =
     st\<lparr>comparedLevels := {}, lastPremium := None, pendingComparison := None\<rparr>"

text \<open>The draft for a tier of the comparison: the vehicle of the last quote, if there is one.\<close>

definition comparison_draft :: "vehicle option \<Rightarrow> jsstring \<Rightarrow> draft" where
  "comparison_draft lp lvl =
     \<lparr>vehicleAge = (case lp of Some v \<Rightarrow> vehicleAge v | None \<Rightarrow> None),
      horsepower = (case lp of Some v \<Rightarrow> horsepower v | None \<Rightarrow> None),
      city = (case lp of Some v \<Rightarrow> city v | None \<Rightarrow> VNull),
      coverageLevel = VStr lvl, pendingSlot = None\<rparr>"

text \<open>
  The answer to a pending comparison, \<open>opts\<close> being the tiers offered. \<open>Inl\<close>: the handler
  has returned; \<open>Inr\<close>: it goes on with the session given.
\<close>

definition answer_comparison ::
  "env \<Rightarrow> session \<Rightarrow> jsstring \<Rightarrow> jsstring list \<Rightarrow> session \<times> response + session" where
  "answer_comparison e sess heard opts =
     (let st = state sess;
          lower = toLowerCase heard;
          mentionsBoth = (str_includes lower (str ''delni'') \<and> str_includes lower (str ''polni''));
          cleared = sess\<lparr>state := st\<lparr>pendingComparison := None\<rparr>\<rparr>
      in
      if length opts = 2 \<and> mentionsBoth
        then Inl (answer_with e sess heard
                    (str ''Lahko izra'' @ [269]
                     @ str ''unam oba. Kateri naj najprej: delni ali polni kasko?'') no_extra)
      else if looksLikeInfoQuestion heard \<and> \<not> mentionsCoverage heard \<and> \<not> hasCalcWording heard
        then Inr cleared
      else if \<not> isLikelyAnswerToComparison heard
        then Inl (answer_with e cleared heard
                    (str ''Nisem prepri'' @ [269] @ str ''an, kaj '' @ [382] @ str ''elite. Ali ''
                     @ [382] @ str ''elite primerjavo kritij (delni/polni kasko) ''
                     @ str ''ali imate drugo vpra'' @ [353] @ str ''anje (npr. prijava '' @ [353]
                     @ str ''kode)?'') no_extra)
      else
        (case (case extractCoverageLevel heard True of
                 Some l \<Rightarrow> if l \<noteq> [] \<and> l \<in> set opts then Some l else None
               | None \<Rightarrow> None) of
           Some saidLevel \<Rightarrow>
             Inr (sess\<lparr>state := st\<lparr>pendingComparison := None,
                    premium := Some (comparison_draft (lastPremium st) saidLevel)\<rparr>\<rparr>)
         | None \<Rightarrow>
             if isNegative heard
               then Inl (answer_with e cleared heard
                           (str ''V redu. '' @ [381] @ str ''elite '' @ [353]
                            @ str ''e kaj? Lahko naredim nov izra'' @ [269]
                            @ str ''un za drugo vozilo.'') no_extra)
             else if isAffirmative heard
               then (case opts of
                       [chosen] \<Rightarrow>
                         Inr (sess\<lparr>state := st\<lparr>pendingComparison := None,
                                premium := Some (comparison_draft (lastPremium st) chosen)\<rparr>\<rparr>)
                     | _ \<Rightarrow>
                         Inl (answer_with e sess heard
                                (str ''Super '' @ [8212] @ str '' '' @ [382]
                                 @ str ''elite delni kasko ali polni kasko?'') no_extra))
             else Inl (answer_with e sess heard
                         (str ''Samo da preverim '' @ [8212] @ str '' '' @ [382]
                          @ str ''elite delni kasko ali polni kasko?'') no_extra)))"

text \<open>
  The draft of the turn: the draft of the session or, if there is none, a new one, filled
  from the vehicle of the last quote unless this turn asked for a new vehicle.
\<close>

definition open_draft :: "state \<Rightarrow> bool \<Rightarrow> draft" where
  "open_draft st newVehicleReq =
     (case premium st of
        Some p \<Rightarrow> p
      | None \<Rightarrow>
          (case lastPremium st of
             Some lp \<Rightarrow>
               if \<not> newVehicleReq
               then \<lparr>vehicleAge = vehicleAge lp, horsepower = horsepower lp, city = city lp,
                     coverageLevel = VNull, pendingSlot = None\<rparr>
               else \<lparr>vehicleAge = None, horsepower = None, city = VNull,
                     coverageLevel = VNull, pendingSlot = None\<rparr>
           | None \<Rightarrow> \<lparr>vehicleAge = None, horsepower = None, city = VNull,
                      coverageLevel = VNull, pendingSlot = None\<rparr>))"

text \<open>
  The draft after the extraction: all four slots are looked for when no slot was asked
  for, else the one that was asked for; a value found replaces the one of the draft.
\<close>

definition fill_draft :: "draft \<Rightarrow> jsstring \<Rightarrow> draft" where
  "fill_draft p heard =
     (let asked = (case pendingSlot p of None \<Rightarrow> False | Some slot \<Rightarrow> slot \<noteq> []);
          age = (if \<not> asked \<or> pendingSlot p = Some (str ''vehicleAge'')
                 then extractVehicleAge heard else None);
          hp = (if \<not> asked \<or> pendingSlot p = Some (str ''horsepower'')
                then extractHorsepower heard else None);
          cty = (if \<not> asked then extractCity heard else VNull);
          lvl = (if \<not> asked \<or> pendingSlot p = Some (str ''coverageLevel'')
                 then extractCoverageLevel heard True else None)
      in
      p\<lparr>vehicleAge := (case age of Some a \<Rightarrow> Some a | None \<Rightarrow> vehicleAge p),
        horsepower := (case hp of Some h \<Rightarrow> Some h | None \<Rightarrow> horsepower p),
        city := (if truthy cty then cty else city p),
        coverageLevel := (case lvl of
                            Some l \<Rightarrow> if l \<noteq> [] then VStr l else coverageLevel p
                          | None \<Rightarrow> coverageLevel p)\<rparr>)"

text \<open>The city of the quote: \<open>if (!p.city) p.city = "Other"\<close>.\<close>

definition default_city :: "draft \<Rightarrow> draft" where
  "default_city p = (if \<not> truthy (city p) then p\<lparr>city := VStr (str ''Other'')\<rparr> else p)"

text \<open>The offer that follows a quote of the tier \<open>lvl\<close>, and the tiers it names.\<close>

definition follow_up :: "jsval \<Rightarrow> jsval set \<Rightarrow> jsstring \<times> jsstring list option" where
  "follow_up lvl compared =
     (let wantDelni = (VStr (str ''delni_kasko'') \<notin> compared);
          wantPolni = (VStr (str ''polni_kasko'') \<notin> compared);
          nothing = ([381] @ str ''elite '' @ [353] @ str ''e kaj? Lahko naredim nov izra'' @ [269]
                     @ str ''un za drugo vozilo.'', None)
      in
      if lvl = VStr (str ''osnovno'') then
        (if wantDelni \<or> wantPolni
         then ([381] @ str ''elite primerjavo za delni ali polni kasko?'',
               Some ((if wantDelni then [str ''delni_kasko''] else [])
                     @ (if wantPolni then [str ''polni_kasko''] else [])))
         else nothing)
      else if lvl = VStr (str ''delni_kasko'') then
        (if wantPolni
         then ([381] @ str ''elite '' @ [353] @ str ''e izra'' @ [269] @ str ''un za polni kasko?'',
               Some [str ''polni_kasko''])
         else nothing)
      else if lvl = VStr (str ''polni_kasko'') then
        (if wantDelni
         then ([381] @ str ''elite '' @ [353] @ str ''e izra'' @ [269] @ str ''un za delni kasko?'',
               Some [str ''delni_kasko''])
         else nothing)
      else nothing)"

definition quote_text :: "draft \<Rightarrow> quote \<Rightarrow> jsstring \<Rightarrow> jsstring" where
  "quote_text p result followUp =
     str ''Ocena premije za '' @ to_String (formatCoverageLabel (coverageLevel p)) @ str '' ''
     @ str ''('' @ slot_to_String (vehicleAge p) @ str '' let star avto, ''
     @ slot_to_String (horsepower p) @ str '' KM, '' @ to_String (city p)
     @ str '') je pribli'' @ [382] @ str ''no ''
     @ num_to_String (annual_eur result) @ str '' '' @ [8364] @ str '' na leto (okoli ''
     @ num_to_String (monthly_eur result) @ str '' '' @ [8364] @ str '' na mesec). ''
     @ followUp"

definition premium_flow :: "env \<Rightarrow> session \<Rightarrow> jsstring \<Rightarrow> bool \<Rightarrow> session \<times> response" where
  "premium_flow e sess heard newVehicleReq =
     (let st = state sess;
          p = fill_draft (open_draft st newVehicleReq) heard
      in
      case missingSlot p of
        Some slot \<Rightarrow>
          let p' = p\<lparr>pendingSlot := Some slot\<rparr>;
              q = (case questionForSlot slot of Some q \<Rightarrow> q | None \<Rightarrow> str ''null'')
          in answer_with e (sess\<lparr>state := st\<lparr>premium := Some p'\<rparr>\<rparr>) heard
               (str ''Seveda '' @ [8212] @ str '' za izra'' @ [269] @ str ''un premije potrebujem ''
                @ [353] @ str ''e eno informacijo. '' @ q)
               \<lparr>premium_pending = Some p', premiumResult = None, ragDocs = None\<rparr>
      | None \<Rightarrow>
          let p' = default_city p in
          (case calculate_premium (slot_to_Number (vehicleAge p')) (slot_to_Number (horsepower p'))
                  (city p') (coverageLevel p') of
             Inl err \<Rightarrow> (sess\<lparr>state := st\<lparr>premium := Some p'\<rparr>\<rparr>, failure err)
           | Inr result \<Rightarrow>
               let compared = insert (coverageLevel p') (comparedLevels st);
                   (followUp, pendingOptions) = follow_up (coverageLevel p') compared;
                   st' = st\<lparr>comparedLevels := compared,
                            lastPremium := Some \<lparr>vehicleAge = vehicleAge p',
                                                 horsepower = horsepower p', city = city p'\<rparr>,
                            premium := None,
                            pendingComparison := pendingOptions\<rparr>
               in answer_with e (sess\<lparr>state := st'\<rparr>) heard (quote_text p' result followUp)
                    \<lparr>premium_pending = None, premiumResult = Some result, ragDocs = None\<rparr>))"

text \<open>The answer from the documents.\<close>

definition excerpt :: "jsstring \<Rightarrow> nat \<Rightarrow> jsstring" where
  "excerpt txt maxChars =
     (let s = trim (rx_replace_all rx_spaces (str '' '') txt) in
      if length s > maxChars then take maxChars s @ str '' '' @ [8230] else s)"

definition rag_rules :: jsstring where
  "rag_rules =
     str ''PRAVILA (strogo):'' @ [10]
     @ str ''1) Odgovarjaj na podlagi spodnjih dokumentov: uporabi jih kot vir resnice, ampak povzemaj samo relevantne informacije.'' @ [10]
     @ str ''2) Ne dodajaj svojih korakov, ki niso iz dokumentov.'' @ [10]
     @ str ''3) '' @ [268] @ str ''e dokumenti ne vsebujejo odgovora, reci: '' @ [39] @ str ''Tega podatka v dokumentih nimam.'' @ [39] @ str '' in vpra'' @ [353] @ str ''aj 1 dodatno vpra'' @ [353] @ str ''anje.'' @ [10]
     @ str ''4) '' @ [268] @ str ''e uporabnik spra'' @ [353] @ str ''uje o postopku, vrni kratek odgovor (3'' @ [8211] @ str ''6 alinej max) in ponudi: '' @ [39] @ str ''Lahko razlo'' @ [382] @ str ''im '' @ [353] @ str ''e podrobneje, '' @ [382] @ str ''elite?'' @ [39, 10]
     @ str ''5) '' @ [268] @ str ''e je izjava nejasna, uporabljaj standardne zavarovalni'' @ [353] @ str ''ke izraze in NE ponavljaj nejasnega izraza uporabnika.'' @ [10]
     @ str ''6) Pri nejasnih izrazih najprej razjasni pomen z enim vpra'' @ [353] @ str ''anjem.'' @ [10]
     @ str ''7) '' @ [268] @ str ''e vpra'' @ [353] @ str ''anje ni povezano z zavarovanjem, povej da si zavarovalni'' @ [353] @ str ''ki agent in usmeri na: prijava '' @ [353] @ str ''kode, kritja (delni/polni kasko), od'' @ [353] @ str ''kodnina/dokazi, roki, samoudele'' @ [382] @ str ''ba, izra'' @ [269] @ str ''un premije.'' @ [10]
     @ str ''8) Odgovarjaj customer-facing (v 2. osebi): '' @ [39] @ str ''lahko prijavite'' @ [39] @ str '', '' @ [39] @ str ''potrebujete'' @ [39] @ str '', '' @ [39] @ str ''priporo'' @ [269] @ str ''amo'' @ [39] @ str ''. Ne uporabljaj '' @ [39] @ str ''agent naj...'' @ [39] @ str ''.'' @ [10, 10]
     @ str ''DOKUMENTI:'' @ [10]"

definition rag_flow :: "env \<Rightarrow> session \<Rightarrow> jsstring \<Rightarrow> session \<times> response" where
  "rag_flow e sess heard =
     (let hits = retrieveDocs e heard (docs e) 10;
          contextDocs = (if hits \<noteq> [] then hits else take 10 (docs e));
          context_text =
            join_with [10]
              (map (\<lambda>d. str ''---'' @ [10] @ str ''DOC: '' @ doc_id d @ [10]
                         @ excerpt (doc_text d) 1400) contextDocs);
          ragSystemMsg = (System, rag_rules @ context_text)
      in
      case llmReply e (messages sess @ [ragSystemMsg]) of
        Inl err \<Rightarrow> (sess, failure err)
      | Inr answer \<Rightarrow>
          answer_with e sess heard answer
            \<lparr>premium_pending = None, premiumResult = None,
             ragDocs = Some (map doc_id contextDocs)\<rparr>)"

text \<open>
  The handler, from the transcript on: the reset for a new vehicle, the answer to a pending
  comparison, the reset for a new premium request, and the premium flow or the answer from
  the documents.
\<close>

definition handle_transcript :: "env \<Rightarrow> session \<Rightarrow> jsstring \<Rightarrow> session \<times> response" where
  "handle_transcript e sess0 heard =
     (let sess1 = push User heard sess0;
          newVehicleReq = wantsNewVehicle heard;
          sess2 = (if newVehicleReq then sess1\<lparr>state := new_vehicle_reset (state sess1)\<rparr>
                   else sess1)
      in
      case (case pendingComparison (state sess2) of
              Some opts \<Rightarrow> answer_comparison e sess2 heard opts
            | None \<Rightarrow> Inr sess2) of
        Inl returned \<Rightarrow> returned
      | Inr sess3 \<Rightarrow>
          let st = state sess3;
              inPremiumFlow = (premium st \<noteq> None);
              wantsPremium = isPremiumIntent heard st;
              newPremiumReq = (wantsPremium \<and> \<not> inPremiumFlow \<and> isNewPremiumRequest heard);
              sess4 = (if newPremiumReq then sess3\<lparr>state := new_premium_reset st\<rparr> else sess3)
          in
          if inPremiumFlow \<or> wantsPremium then premium_flow e sess4 heard newVehicleReq
          else rag_flow e sess4 heard)"

text \<open>A turn on a session: \<open>file\<close> is the audio of the request, if it has one.\<close>

definition turn :: "env \<Rightarrow> session \<Rightarrow> bytes option \<Rightarrow> session \<times> response" where
  "turn e sess file =
     (case file of
        None \<Rightarrow> (sess, Status400 (str ''Missing audio file''))
      | Some buffer \<Rightarrow>
          (case sttTranscribe e buffer of
             Inl err \<Rightarrow> (sess, failure err)
           | Inr heard \<Rightarrow> handle_transcript e sess heard))"

text \<open>The route \<open>/turn\<close> on the map of the sessions.\<close>

definition post_turn ::
  "env \<Rightarrow> sessions \<Rightarrow> jsstring \<Rightarrow> bytes option \<Rightarrow> sessions \<times> response" where
  "post_turn e store sessionId file =
     (let (store', sess) = getSession store sessionId;
          (sess', r) = turn e sess file
      in (store'(sessionId \<mapsto> sess'), r))"

text \<open>The sessions that a sequence of turns reaches from a new session.\<close>

inductive reachable :: "session \<Rightarrow> bool" where
  start: "reachable new_session"
| step: "reachable sess \<Longrightarrow> reachable (fst (turn e sess file))"

section \<open>Slovenian numerals below one hundred\<close>

text \<open>
  The word forms of the numbers 0 to 99, written down from the language and not from the
  parser: the words for the units, for ten to nineteen and for the decades, each with its
  canonical spelling first and then the spelling variants the parser documents, and the
  compounds unit-\<open>in\<close>-decade such as \<open>enaindvajset\<close>.
\<close>

definition unit_words :: "jsstring list list" where
  "unit_words =
     [[str ''ni'' @ [269], str ''nic'', str ''nula''],
      [str ''ena'', str ''en'', str ''eno''],
      [str ''dva'', str ''dve''],
      [str ''tri''],
      [[353] @ str ''tiri'', str ''stiri''],
      [str ''pet''],
      [[353] @ str ''est'', str ''sest''],
      [str ''sedem''],
      [str ''osem''],
      [str ''devet'']]"

definition teen_words :: "jsstring list list" where
  "teen_words =
     [[str ''deset''],
      [str ''enajst''],
      [str ''dvanajst''],
      [str ''trinajst''],
      [[353] @ str ''tirinajst'', str ''stirinajst''],
      [str ''petnajst''],
      [[353] @ str ''estnajst'', str ''sestnajst''],
      [str ''sedemnajst''],
      [str ''osemnajst''],
      [str ''devetnajst'']]"

definition decade_words :: "jsstring list list" where
  "decade_words =
     [[str ''dvajset''],
      [str ''trideset''],
      [[353] @ str ''tirideset'', str ''stirideset''],
      [str ''petdeset'', str ''petindeset''],
      [[353] @ str ''estdeset'', str ''sestdeset'', [353] @ str ''ezdeset'', str ''sezdeset'',
       str ''sestindeset''],
      [str ''sedemdeset'', str ''sedemindeset''],
      [str ''osemdeset'', str ''osemindeset''],
      [str ''devetdeset'', str ''devetindeset'']]"

definition compound_words :: "nat \<Rightarrow> nat \<Rightarrow> jsstring list" where
  "compound_words d u =
     concat (map (\<lambda>uw. map (\<lambda>dw. uw @ str ''in'' @ dw) (decade_words ! (d - 2)))
               (unit_words ! u))"

definition word_forms :: "nat \<Rightarrow> jsstring list" where
  "word_forms n =
     (if n < 10 then unit_words ! n
      else if n < 20 then teen_words ! (n - 10)
      else if n mod 10 = 0 then decade_words ! (n div 10 - 2)
      else compound_words (n div 10) (n mod 10))"

text \<open>The parser returns \<open>n\<close> on every word of a list.\<close>

definition parses_to :: "nat \<Rightarrow> jsstring list \<Rightarrow> bool" where
  "parses_to n ws = list_all (\<lambda>w. parseSlNumberRobust w = Some (PNum n)) ws"

text \<open>The number \<open>n\<close> has a word form, and the parser returns \<open>n\<close> on each of its forms.\<close>

definition round_trips :: "nat \<Rightarrow> bool" where
  "round_trips n = (word_forms n \<noteq> [] \<and> parses_to n (word_forms n))"

section \<open>Notions used in the statements\<close>

text \<open>The position \<open>k\<close> code units further on.\<close>

definition adv :: "nat \<Rightarrow> mstate \<Rightarrow> mstate" where
  "adv k s = MState (rev (take k (after s)) @ before s) (drop k (after s)) (caps s)"

text \<open>The numbers of the groups of a pattern.\<close>

primrec groups :: "rx \<Rightarrow> nat set" where
  "groups (Cls p) = {}"
| "groups Eps = {}"
| "groups (Seq a b) = groups a \<union> groups b"
| "groups (Alt a b) = groups a \<union> groups b"
| "groups (Star r) = groups r"
| "groups (Rep m n r) = groups r"
| "groups (Grp n r) = insert n (groups r)"
| "groups (Bnd w) = {}"
| "groups Bol = {}"
| "groups Eol = {}"

text \<open>A text starts with a literal, up to case folding.\<close>

fun iu_prefix :: "jsstring \<Rightarrow> jsstring \<Rightarrow> bool" where
  "iu_prefix [] a = True"
| "iu_prefix (c # cs) [] = False"
| "iu_prefix (c # cs) (x # xs) = (fold_cu x = fold_cu c \<and> iu_prefix cs xs)"

text \<open>
  A standalone run of digits of a text \<open>t\<close>: \<open>n\<close> digits from index \<open>i\<close>, between one and
  four of them, with no word character (ASCII letter, digit, underscore) next to the run on
  either side.
\<close>

definition standalone_run :: "jsstring \<Rightarrow> nat \<Rightarrow> nat \<Rightarrow> bool" where
  "standalone_run t i n =
     (1 \<le> n \<and> n \<le> 4 \<and> i + n \<le> length t
      \<and> list_all is_digit (take n (drop i t))
      \<and> (i = 0 \<or> \<not> is_word (t ! (i - 1)))
      \<and> (i + n = length t \<or> \<not> is_word (t ! (i + n))))"

text \<open>
  A plain word: lower-case letters of the Slovenian alphabet only, every \<open>z\<close> after an
  ASCII letter, and not one of the words for the hundreds.
\<close>

definition lc_letter :: "jschar \<Rightarrow> bool" where
  "lc_letter c = (97 \<le> c \<and> c \<le> 122 \<or> c = 269 \<or> c = 353 \<or> c = 382)"

text \<open>Every \<open>z\<close> of a text follows a word character (\<open>pw\<close>: the text itself does).\<close>

fun z_inside :: "bool \<Rightarrow> jsstring \<Rightarrow> bool" where
  "z_inside pw [] = True"
| "z_inside pw (c # cs) = ((c \<noteq> 122 \<or> pw) \<and> z_inside (is_word c) cs)"

definition plain_word :: "jsstring \<Rightarrow> bool" where
  "plain_word w =
     (w \<noteq> [] \<and> list_all lc_letter w \<and> z_inside False w \<and> w \<notin> set (map fst hundreds))"

section \<open>Facts about strings\<close>

lemma starts_with_iff_prefix: "starts_with s p \<longleftrightarrow> prefix p s"
  by (induction s p rule: starts_with.induct) auto

lemma str_includes_iff_sublist: "str_includes s p \<longleftrightarrow> sublist p s"
proof (induction s)
  case Nil
  then show ?case by simp
next
  case (Cons c cs)
  then show ?case
    by (simp add: starts_with_iff_prefix sublist_Cons_right)
qed

lemma toLowerCase_append: "toLowerCase (a @ b) = toLowerCase a @ toLowerCase b"
  by (simp add: toLowerCase_def)

definition lower_ascii :: "jsstring \<Rightarrow> bool" where
  "lower_ascii s = (\<forall>c \<in> set s. 97 \<le> c \<and> c \<le> 122)"

lemma toLowerCase_lower_ascii: "lower_ascii s \<Longrightarrow> toLowerCase s = s"
  by (induction s) (auto simp: lower_ascii_def toLowerCase_def lower_cu_def)

lemma toLowerCase_keeps_sublist:
  assumes "lower_ascii p" and "sublist p s"
  shows "sublist p (toLowerCase s)"
proof -
  from assms(2) obtain a b where "s = a @ p @ b"
    by (auto simp: sublist_def)
  then have "toLowerCase s = toLowerCase a @ p @ toLowerCase b"
    by (simp add: toLowerCase_append toLowerCase_lower_ascii [OF assms(1)])
  then show ?thesis
    by (auto simp: sublist_def)
qed

section \<open>The premium calculator\<close>


text \<open>
  Claim C6. \<open>calculate_premium\<close> throws exactly when the age is not finite or negative, or
  the horsepower is not finite or not positive, or the coverage tier is \<open>null\<close> or the empty
  string; in every other case it returns a quote.
\<close>

theorem calculate_premium_error_iff:
  "is_error (calculate_premium age hp cty lvl) \<longleftrightarrow>
     (\<not> isFinite age \<or> num_lt age (Fin 0))
   \<or> (\<not> isFinite hp \<or> num_le hp (Fin 0))
   \<or> (lvl = VNull \<or> lvl = VStr [])"
  by (cases lvl)
    (auto simp: calculate_premium_def is_error_def Let_def truthy_def to_String_def str_def)

theorem calculate_premium_error_iff_witness:
  "is_error (calculate_premium (Fin 5) (Fin 0) (VStr (str ''Koper'')) (VStr (str ''osnovno'')))
   \<and> \<not> is_error (calculate_premium (Fin 0) (Fin 1) VNull (VStr (str ''x'')))"
  using calculate_premium_error_iff
          [of "Fin 5" "Fin 0" "VStr (str ''Koper'')" "VStr (str ''osnovno'')"]
        calculate_premium_error_iff [of "Fin 0" "Fin 1" VNull "VStr (str ''x'')"]
  by (simp add: isFinite_def str_def)

text \<open>
  Two results differ after rounding as soon as the exact values are at least 1 apart.
\<close>

lemma round_gap:
  fixes x y :: rat
  assumes "x + 1 \<le> y"
  shows "math_round x < math_round y"
proof -
  have "of_int (\<lfloor>x + 1 / 2\<rfloor> + 1) \<le> x + 1 / 2 + 1"
    using of_int_floor_le [of "x + 1 / 2"] by linarith
  also have "\<dots> \<le> y + 1 / 2" using assms by simp
  finally have "\<lfloor>x + 1 / 2\<rfloor> + 1 \<le> \<lfloor>y + 1 / 2\<rfloor>"
    by (simp only: le_floor_iff)
  then show ?thesis by (simp add: math_round_def)
qed

lemma map_of_city_ge1: "map_of cityFactorMap k = Some v \<Longrightarrow> 1 \<le> v"
  by (auto simp: cityFactorMap_def split: if_splits)

text \<open>
  The annual premium grows strictly with the tier for every valid age and horsepower and every
  city whose key is not the name of a property that the city table inherits.
\<close>

lemma premium_monotone_for_table_cities:
  assumes age: "0 \<le> a" and hp: "0 < h"
    and key: "city_key cty \<notin> set object_prototype_keys"
  shows "num_lt (annual_of (calculate_premium (Fin a) (Fin h) cty (VStr (str ''osnovno''))))
                (annual_of (calculate_premium (Fin a) (Fin h) cty (VStr (str ''delni_kasko''))))
       \<and> num_lt (annual_of (calculate_premium (Fin a) (Fin h) cty (VStr (str ''delni_kasko''))))
                (annual_of (calculate_premium (Fin a) (Fin h) cty (VStr (str ''polni_kasko''))))"
proof -
  define af where "af = max (78 / 100) (min (115 / 100) (110 / 100 - a * (2 / 100)))"
  define hf where "hf = max (85 / 100) (min (160 / 100) (85 / 100 + h / 200))"
  define c where "c = (case map_of cityFactorMap (city_key cty) of Some v \<Rightarrow> v | None \<Rightarrow> 1)"
  define p where "p = af * hf"
  define x where "x = 220 * af * hf * c"
  have af: "78 / 100 \<le> af" by (simp add: af_def)
  have hf: "85 / 100 \<le> hf" by (simp add: hf_def)
  have c: "1 \<le> c" by (auto simp: c_def dest: map_of_city_ge1 split: option.splits)
  have "78 / 100 * (85 / 100) \<le> af * hf"
    using af hf by (intro mult_mono) auto
  then have p: "663 / 1000 \<le> p" by (simp add: p_def)
  then have "p * 1 \<le> p * c"
    using c by (intro mult_left_mono) auto
  moreover have "x = 220 * (p * c)" by (simp add: x_def p_def)
  ultimately have x: "145 \<le> x" using p by linarith
  have cf: "(case obj_get cityFactorMap (city_key cty) of
               Own v \<Rightarrow> if v = 0 then FNum 1 else FNum v
             | Inherited \<Rightarrow> FObject
             | Undefined \<Rightarrow> FNum 1) = FNum c"
    using key c by (auto simp: obj_get_def c_def split: option.splits)
  have ann: "annual_of (calculate_premium (Fin a) (Fin h) cty (VStr (str l))) =
             round_num (times_factor (Fin x) (case obj_get coverageFactorMap (str l) of
                    Own v \<Rightarrow> FNum v | Inherited \<Rightarrow> FObject | Undefined \<Rightarrow> FNum 1))"
    if "str l \<noteq> []" for l
  proof -
    have n: "\<not> a < 0" "\<not> h \<le> 0" "truthy (VStr (str l))"
      using age hp that by (auto simp: truthy_def)
    show ?thesis
      unfolding calculate_premium_def annual_of_def Let_def city_key_def [symmetric] cf
      using that
      by (simp only: n isFinite_def fin_val_def jsnum.case num_lt.simps num_le.simps
          to_String_def jsval.case times_factor_def simp_thms if_False if_True sum.case
          quote.simps prod.case factor.case x_def af_def hf_def)
  qed
  have 1: "annual_of (calculate_premium (Fin a) (Fin h) cty (VStr (str ''osnovno'')))
           = Fin (of_int (math_round x))"
    by (subst ann)
      (simp_all add: str_def obj_get_def coverageFactorMap_def times_factor_def round_num_def)
  have 2: "annual_of (calculate_premium (Fin a) (Fin h) cty (VStr (str ''delni_kasko'')))
           = Fin (of_int (math_round (x * (128 / 100))))"
    by (subst ann)
      (simp_all add: str_def obj_get_def coverageFactorMap_def times_factor_def round_num_def)
  have 3: "annual_of (calculate_premium (Fin a) (Fin h) cty (VStr (str ''polni_kasko'')))
           = Fin (of_int (math_round (x * (155 / 100))))"
    by (subst ann)
      (simp_all add: str_def obj_get_def coverageFactorMap_def times_factor_def round_num_def)
  have "math_round x < math_round (x * (128 / 100))"
    using x by (intro round_gap) simp
  moreover have "math_round (x * (128 / 100)) < math_round (x * (155 / 100))"
    using x by (intro round_gap) simp
  ultimately show ?thesis
    by (simp add: 1 2 3)
qed



section \<open>The coverage tier\<close>

lemma lower_ascii_str_polni: "lower_ascii (str ''polni'')"
  by (simp add: lower_ascii_def str_def)

text \<open>
  Claim C10. A text that contains both \<open>polni\<close> and \<open>delni\<close> is given the full tier by
  \<open>normalizeCoverageLevel\<close>, and so by \<open>extractCoverageLevel\<close>, with or without the premium
  context.
\<close>

theorem coverage_full_wins:
  assumes "sublist (str ''polni'') s" and "sublist (str ''delni'') s"
  shows "normalizeCoverageLevel s = Some (str ''polni_kasko'')
       \<and> extractCoverageLevel s wantsPremium = Some (str ''polni_kasko'')"
proof -
  have "str_includes (toLowerCase s) (str ''polni'')"
    using toLowerCase_keeps_sublist [OF lower_ascii_str_polni assms(1)]
    by (simp add: str_includes_iff_sublist)
  then have "normalizeCoverageLevel s = Some (str ''polni_kasko'')"
    by (simp add: normalizeCoverageLevel_def)
  then show ?thesis
    by (simp add: extractCoverageLevel_def)
qed

theorem coverage_full_wins_witness:
  "normalizeCoverageLevel (str ''delni ali polni kasko'') = Some (str ''polni_kasko'')
   \<and> extractCoverageLevel (str ''delni ali polni kasko'') False = Some (str ''polni_kasko'')"
proof -
  have a: "sublist (str ''polni'') (str ''delni ali polni kasko'')"
    unfolding str_includes_iff_sublist [symmetric] by (simp add: str_def)
  have b: "sublist (str ''delni'') (str ''delni ali polni kasko'')"
    unfolding str_includes_iff_sublist [symmetric] by (simp add: str_def)
  show ?thesis using coverage_full_wins [OF a b] by simp
qed

section \<open>The matcher on classes and literals\<close>

lemma adv_0 [simp]: "adv 0 s = s"
  by (cases s) (simp add: adv_def)

lemma adv_adv1: "adv k (adv (Suc 0) s) = adv (Suc k) s"
proof -
  have "take (Suc k) (after s) = take 1 (after s) @ take k (drop 1 (after s))"
    using take_add [of 1 k "after s"] by simp
  then show ?thesis by (simp add: adv_def)
qed

lemma after_adv [simp]: "after (adv k s) = drop k (after s)"
  by (simp add: adv_def)

lemma caps_adv [simp]: "caps (adv k s) = caps s"
  by (simp add: adv_def)

lemma before_adv [simp]: "before (adv k s) = rev (take k (after s)) @ before s"
  by (simp add: adv_def)

text \<open>One step of a class, as a function of the position.\<close>

lemma rmatch_Cls_adv:
  "rmatch (Cls p) s =
     (case after s of [] \<Rightarrow> [] | c # cs \<Rightarrow> if p c then [adv (Suc 0) s] else [])"
  by (cases s) (auto simp: adv_def split: list.splits)

lemma upt_Suc_Suc_0: "[0 ..< Suc (Suc M)] = 0 # map Suc [0 ..< Suc M]"
  by (simp only: map_Suc_upt upt_conv_Cons [of 0 "Suc (Suc M)"])

lemma rep_step:
  assumes f: "\<And>s. f s = (case after s of [] \<Rightarrow> [] | c # cs \<Rightarrow> if p c then [adv (Suc 0) s] else [])"
  shows "rep f m n s =
     map (\<lambda>k. adv k s) (rev [m ..< Suc (min n (length (takeWhile p (after s))))])"
proof (induction n arbitrary: m s)
  case 0
  show ?case by (subst rep.simps) simp
next
  case (Suc n)
  show ?case
  proof (cases "after s")
    case Nil
    then show ?thesis
      by (subst rep.simps) (simp add: f)
  next
    case (Cons c cs)
    show ?thesis
    proof (cases "p c")
      case False
      with Cons show ?thesis
        by (subst rep.simps) (simp add: f)
    next
      case True
      define M where "M = min n (length (takeWhile p cs))"
      have ih: "rep f (m - 1) n (adv (Suc 0) s) =
                map (\<lambda>k. adv (Suc k) s) (rev [m - 1 ..< Suc M])"
        using Cons unfolding Suc.IH [of "m - 1" "adv (Suc 0) s"] M_def
        by (simp add: adv_adv1)
      have lhs: "rep f m (Suc n) s =
                 rep f (m - 1) n (adv (Suc 0) s) @ (if m = 0 then [s] else [])"
        using Cons True by (subst rep.simps) (simp add: f)
      have rhs: "min (Suc n) (length (takeWhile p (after s))) = Suc M"
        using Cons True by (simp add: M_def)
      show ?thesis
      proof (cases "m = 0")
        case True
        then show ?thesis
          unfolding lhs rhs ih
          by (simp only: upt_Suc_Suc_0) (simp add: rev_map)
      next
        case False
        then have "[m ..< Suc (Suc M)] = map Suc [m - 1 ..< Suc M]"
          by (simp only: map_Suc_upt) simp
        with False show ?thesis
          unfolding lhs rhs ih by (simp add: rev_map)
      qed
    qed
  qed
qed

lemma rmatch_Rep_Cls:
  "rmatch (Rep m n (Cls p)) s =
     map (\<lambda>k. adv k s) (rev [m ..< Suc (min n (length (takeWhile p (after s))))])"
  by (subst rmatch.simps(6), rule rep_step, rule rmatch_Cls_adv)

lemma star_step:
  assumes f: "\<And>s. f s = (case after s of [] \<Rightarrow> [] | c # cs \<Rightarrow> if p c then [adv (Suc 0) s] else [])"
  shows "length (after s) \<le> k \<Longrightarrow>
   star f k s = map (\<lambda>j. adv j s) (rev [0 ..< Suc (length (takeWhile p (after s)))])"
proof (induction k arbitrary: s)
  case 0
  then show ?case by simp
next
  case (Suc k)
  show ?case
  proof (cases "after s")
    case Nil
    then show ?thesis by (simp add: f)
  next
    case (Cons c cs)
    show ?thesis
    proof (cases "p c")
      case False
      with Cons show ?thesis by (simp add: f)
    next
      case True
      define L where "L = length (takeWhile p cs)"
      have ih: "star f k (adv (Suc 0) s) = map (\<lambda>j. adv (Suc j) s) (rev [0 ..< Suc L])"
        using Suc.prems Cons unfolding L_def
        by (simp add: adv_adv1 Suc.IH)
      have step: "star f (Suc k) s = star f k (adv (Suc 0) s) @ [s]"
        using Cons True by (simp add: f)
      have tw: "length (takeWhile p (after s)) = Suc L"
        using Cons True by (simp add: L_def)
      have "map (\<lambda>j. adv j s) (rev [0 ..< Suc (Suc L)]) =
            map (\<lambda>j. adv (Suc j) s) (rev [0 ..< Suc L]) @ [s]"
        by (simp only: upt_Suc_Suc_0) (simp add: rev_map)
      then show ?thesis
        unfolding step ih tw by simp
    qed
  qed
qed

lemma rmatch_Star_Cls:
  "rmatch (Star (Cls p)) s =
     map (\<lambda>j. adv j s) (rev [0 ..< Suc (length (takeWhile p (after s)))])"
  by (subst rmatch.simps(5), rule star_step, rule rmatch_Cls_adv, simp)

lemma rmatch_lit:
  "rmatch (lit l) s = (if prefix l (after s) then [adv (length l) s] else [])"
proof (induction l arbitrary: s)
  case Nil
  show ?case by (simp add: lit_def)
next
  case (Cons c l)
  have unfold: "rmatch (lit (c # l)) s = concat (map (rmatch (lit l)) (rmatch (chr c) s))"
    by (simp add: lit_def)
  show ?case
  proof (cases "after s")
    case Nil
    then show ?thesis unfolding unfold chr_def rmatch_Cls_adv by simp
  next
    case (Cons x xs)
    then show ?thesis
      unfolding unfold chr_def rmatch_Cls_adv
      by (simp add: Cons.IH adv_adv1)
  qed
qed

lemma rmatch_lit_iu:
  "rmatch (lit_iu l) s = (if iu_prefix l (after s) then [adv (length l) s] else [])"
proof (induction l arbitrary: s)
  case Nil
  show ?case by (simp add: lit_iu_def)
next
  case (Cons c l)
  have unfold: "rmatch (lit_iu (c # l)) s = concat (map (rmatch (lit_iu l)) (rmatch (chr_iu c) s))"
    by (simp add: lit_iu_def)
  show ?case
  proof (cases "after s")
    case Nil
    then show ?thesis unfolding unfold chr_iu_def rmatch_Cls_adv by simp
  next
    case (Cons x xs)
    then show ?thesis
      unfolding unfold chr_iu_def rmatch_Cls_adv
      by (simp add: Cons.IH adv_adv1)
  qed
qed

section \<open>The digit run\<close>

lemma concat_map_all_Nil: "(\<And>x. x \<in> set xs \<Longrightarrow> g x = []) \<Longrightarrow> concat (map g xs) = []"
  by (induction xs) auto

lemma at_boundary_MState:
  "at_boundary w (MState b a c) =
     ((b \<noteq> [] \<and> w (hd b)) \<noteq> (a \<noteq> [] \<and> w (hd a)))"
  by (cases b; cases a) (simp_all add: at_boundary_def)

lemma is_digit_is_word: "is_digit c \<Longrightarrow> is_word c"
  by (simp add: is_word_def)

lemma takeWhile_nth_all: "k < length (takeWhile p a) \<Longrightarrow> p (a ! k)"
  by (metis nth_mem set_takeWhileD takeWhile_nth)

lemma take_takeWhile_length: "take (length (takeWhile p a)) a = takeWhile p a"
  by (induction a) auto

lemma drop_takeWhile_length: "drop (length (takeWhile p a)) a = dropWhile p a"
  by (induction a) auto

text \<open>
  At a position the pattern \<open>\b(\d{1,4})\b\<close> matches in at most one way: the digits that
  start there, all of them, when they are one to four and stand between non-word characters.
\<close>

lemma rmatch_digit_run:
  "rmatch rx_digit_run (MState b a []) =
     (if (b = [] \<or> \<not> is_word (hd b))
         \<and> 1 \<le> length (takeWhile is_digit a) \<and> length (takeWhile is_digit a) \<le> 4
         \<and> (dropWhile is_digit a = [] \<or> \<not> is_word (hd (dropWhile is_digit a)))
      then [MState (rev (takeWhile is_digit a) @ b) (dropWhile is_digit a)
              [(1, takeWhile is_digit a)]]
      else [])"
proof -
  define L where "L = length (takeWhile is_digit a)"
  define s where "s = MState b a []"
  define g where "g = (\<lambda>k. rmatch (Seq (Bnd is_word) Eps) (set_cap 1 s (adv k s)))"
  have unfold: "rmatch rx_digit_run s =
      (if at_boundary is_word s then concat (map g (rev [1 ..< Suc (min 4 L)])) else [])"
    by (simp add: rx_digit_run_def seqs_def rmatch_Rep_Cls g_def L_def s_def comp_def
        del: rmatch.simps(6) upt_Suc)
  have g_small: "g k = []" if "1 \<le> k" "k < L" for k
  proof -
    have "is_digit (a ! k)" "is_digit (a ! (k - 1))"
      using that takeWhile_nth_all [of _ is_digit a] by (auto simp: L_def)
    moreover have "k < length a" "k - 1 < length a"
      using that length_takeWhile_le [of is_digit a] by (auto simp: L_def)
    moreover have "take k a \<noteq> []"
      using that \<open>k < length a\<close> by (auto simp: take_eq_Nil)
    moreover have "last (take k a) = a ! (k - 1)"
    proof -
      have "last (take k a) = take k a ! (length (take k a) - 1)"
        using \<open>take k a \<noteq> []\<close> by (rule last_conv_nth)
      also have "\<dots> = a ! (k - 1)"
        using that \<open>k < length a\<close> by (simp add: min_def)
      finally show ?thesis .
    qed
    ultimately show ?thesis
      using that
      by (simp add: g_def set_cap_def s_def at_boundary_MState hd_drop_conv_nth
          hd_rev is_digit_is_word)
  qed
  have g_L: "g L = (if dropWhile is_digit a = [] \<or> \<not> is_word (hd (dropWhile is_digit a))
                    then [MState (rev (takeWhile is_digit a) @ b) (dropWhile is_digit a)
                            [(1, takeWhile is_digit a)]]
                    else [])" if "1 \<le> L"
  proof -
    have ne: "takeWhile is_digit a \<noteq> []" using that by (auto simp: L_def)
    then have "is_digit (last (takeWhile is_digit a))"
      by (metis last_in_set set_takeWhileD)
    then have lw: "is_word (last (takeWhile is_digit a))"
      by (rule is_digit_is_word)
    have len: "length a - length (dropWhile is_digit a) = L"
      using takeWhile_dropWhile_id [of is_digit a]
      by (metis L_def add_diff_cancel_right' length_append)
    have st: "set_cap 1 s (adv L s) =
              MState (rev (takeWhile is_digit a) @ b) (dropWhile is_digit a)
                [(1, takeWhile is_digit a)]"
      using len
      by (simp add: set_cap_def s_def L_def take_takeWhile_length drop_takeWhile_length)
    have hd: "hd (rev (takeWhile is_digit a) @ b) = last (takeWhile is_digit a)"
      using ne by (simp add: hd_rev)
    show ?thesis
      unfolding g_def st
      using ne lw by (simp add: at_boundary_MState hd)
  qed
  have body: "concat (map g (rev [1 ..< Suc (min 4 L)])) =
      (if 1 \<le> L \<and> L \<le> 4 then g L else [])"
  proof (cases "1 \<le> L \<and> L \<le> 4")
    case True
    then have "min 4 L = L" by simp
    then have "rev [1 ..< Suc (min 4 L)] = L # rev [1 ..< L]"
      using True by simp
    moreover have "concat (map g (rev [1 ..< L])) = []"
      by (rule concat_map_all_Nil) (auto intro: g_small)
    ultimately show ?thesis using True by simp
  next
    case False
    have "concat (map g (rev [1 ..< Suc (min 4 L)])) = []"
      by (rule concat_map_all_Nil) (use False in \<open>auto intro!: g_small\<close>)
    with False show ?thesis by simp
  qed
  have bnd: "at_boundary is_word s \<longleftrightarrow> (b = [] \<or> \<not> is_word (hd b))" if "1 \<le> L"
  proof -
    have "a \<noteq> []" "is_digit (hd a)"
      using that by (cases a; auto simp: L_def split: if_splits)+
    then show ?thesis
      by (auto simp: s_def at_boundary_MState is_digit_is_word)
  qed
  show ?thesis
    unfolding s_def [symmetric] unfold body L_def [symmetric]
    using bnd g_L by (auto simp: L_def)
qed

lemma rx_search_hit:
  "rmatch r (MState b a []) = e # es \<Longrightarrow> rx_search r b a = Some (b, e)"
  by (cases a) simp_all

lemma rx_search_miss:
  "rmatch r (MState b (c # cs) []) = [] \<Longrightarrow> rx_search r b (c # cs) = rx_search r (c # b) cs"
  by simp

lemma rx_search_end:
  "rmatch r (MState b [] []) = [] \<Longrightarrow> rx_search r b [] = None"
  by simp

lemma rx_search_digit_run_hit:
  assumes "(b = [] \<or> \<not> is_word (hd b))
         \<and> 1 \<le> length (takeWhile is_digit a) \<and> length (takeWhile is_digit a) \<le> 4
         \<and> (dropWhile is_digit a = [] \<or> \<not> is_word (hd (dropWhile is_digit a)))"
  shows "rx_search rx_digit_run b a =
           Some (b, MState (rev (takeWhile is_digit a) @ b) (dropWhile is_digit a)
                      [(1, takeWhile is_digit a)])"
  by (rule rx_search_hit) (simp only: rmatch_digit_run assms if_True simp_thms)

lemma rx_search_digit_run_miss:
  assumes "\<not> ((b = [] \<or> \<not> is_word (hd b))
         \<and> 1 \<le> length (takeWhile is_digit (c # cs))
         \<and> length (takeWhile is_digit (c # cs)) \<le> 4
         \<and> (dropWhile is_digit (c # cs) = []
            \<or> \<not> is_word (hd (dropWhile is_digit (c # cs)))))"
  shows "rx_search rx_digit_run b (c # cs) = rx_search rx_digit_run (c # b) cs"
  by (rule rx_search_miss) (simp only: rmatch_digit_run assms if_False)

lemma hd_rev_nth: "b \<noteq> [] \<Longrightarrow> (rev b @ a) ! (length b - Suc 0) = hd b"
  by (cases b) (simp_all add: nth_append)

lemma standalone_run_here:
  assumes "standalone_run (rev b @ a) (length b) n"
  shows "(b = [] \<or> \<not> is_word (hd b))
         \<and> 1 \<le> length (takeWhile is_digit a) \<and> length (takeWhile is_digit a) \<le> 4
         \<and> (dropWhile is_digit a = [] \<or> \<not> is_word (hd (dropWhile is_digit a)))
         \<and> takeWhile is_digit a = take n a"
proof -
  from assms have n: "1 \<le> n" "n \<le> 4" "n \<le> length a"
    and dig: "list_all is_digit (take n a)"
    and prev: "b = [] \<or> \<not> is_word ((rev b @ a) ! (length b - 1))"
    and nxt: "n = length a \<or> \<not> is_word (a ! n)"
    by (auto simp: standalone_run_def nth_append)
  have tw: "takeWhile is_digit a = take n a"
  proof (rule takeWhile_eq_take_P_nth)
    fix i assume "i < n" "i < length a"
    then have "a ! i \<in> set (take n a)"
      by (metis in_set_conv_nth length_take min_less_iff_conj nth_take)
    with dig show "is_digit (a ! i)" by (simp add: list_all_iff)
  next
    assume "n < length a"
    with nxt show "\<not> is_digit (a ! n)" by (auto dest: is_digit_is_word)
  qed
  have dw: "dropWhile is_digit a = drop n a"
    using tw takeWhile_dropWhile_id [of is_digit a] append_take_drop_id [of n a]
    by (metis append_eq_append_conv length_take)
  have "dropWhile is_digit a = [] \<or> \<not> is_word (hd (dropWhile is_digit a))"
    using nxt n by (auto simp: dw hd_drop_conv_nth)
  moreover have "b = [] \<or> \<not> is_word (hd b)"
    using prev by (auto simp: hd_rev_nth)
  ultimately show ?thesis
    using n tw by (simp add: min_def)
qed

lemma here_standalone_run:
  assumes "b = [] \<or> \<not> is_word (hd b)"
    and "1 \<le> length (takeWhile is_digit a)" "length (takeWhile is_digit a) \<le> 4"
    and "dropWhile is_digit a = [] \<or> \<not> is_word (hd (dropWhile is_digit a))"
  shows "standalone_run (rev b @ a) (length b) (length (takeWhile is_digit a))"
proof -
  define n where "n = length (takeWhile is_digit a)"
  have le: "n \<le> length a" by (simp add: n_def length_takeWhile_le)
  have tk: "take n a = takeWhile is_digit a"
    by (simp add: n_def take_takeWhile_length)
  have dr: "drop n a = dropWhile is_digit a"
    by (simp add: n_def drop_takeWhile_length)
  have dig: "list_all is_digit (take n a)"
    unfolding tk by (auto simp: list_all_iff dest: set_takeWhileD)
  have nxt: "n = length a \<or> \<not> is_word (a ! n)"
  proof (cases "n = length a")
    case False
    with le have lt: "n < length a" by simp
    then have "drop n a \<noteq> []" by simp
    moreover from assms(4) have "drop n a = [] \<or> \<not> is_word (hd (drop n a))"
      by (simp only: dr)
    ultimately have "\<not> is_word (hd (drop n a))" by blast
    with lt show ?thesis by (simp add: hd_drop_conv_nth)
  qed simp
  have prev: "length b = 0 \<or> \<not> is_word ((rev b @ a) ! (length b - 1))"
    using assms(1) by (auto simp: hd_rev_nth)
  show ?thesis
    unfolding n_def [symmetric] standalone_run_def
    using assms(2,3) le dig nxt prev
    by (auto simp: n_def [symmetric] nth_append)
qed

text \<open>The search finds the leftmost standalone run.\<close>

lemma rx_search_digit_run_leftmost:
  assumes "standalone_run (rev b @ a) i n"
    and "length b \<le> i"
    and "\<And>i' n'. standalone_run (rev b @ a) i' n' \<Longrightarrow> i \<le> i'"
  shows "\<exists>b0 e. rx_search rx_digit_run b a = Some (b0, e)
           \<and> map_of (caps e) 1 = Some (take n (drop i (rev b @ a)))"
  using assms
proof (induction a arbitrary: b)
  case Nil
  then have False
    by (auto simp: standalone_run_def)
  then show ?case ..
next
  case (Cons c cs)
  show ?case
  proof (cases "i = length b")
    case True
    note here = standalone_run_here [OF Cons.prems(1) [unfolded True]]
    have "rx_search rx_digit_run b (c # cs) =
           Some (b, MState (rev (takeWhile is_digit (c # cs)) @ b)
                      (dropWhile is_digit (c # cs)) [(1, takeWhile is_digit (c # cs))])"
      by (rule rx_search_digit_run_hit) (use here in blast)
    moreover have "takeWhile is_digit (c # cs) = take n (drop i (rev b @ c # cs))"
      using here by (simp only: True drop_append length_rev) simp
    ultimately show ?thesis
      by (simp del: takeWhile.simps dropWhile.simps)
  next
    case False
    with Cons.prems(2) have lt: "length b < i" by simp
    have no: "\<not> ((b = [] \<or> \<not> is_word (hd b))
         \<and> 1 \<le> length (takeWhile is_digit (c # cs))
         \<and> length (takeWhile is_digit (c # cs)) \<le> 4
         \<and> (dropWhile is_digit (c # cs) = []
            \<or> \<not> is_word (hd (dropWhile is_digit (c # cs)))))"
    proof
      assume h: "(b = [] \<or> \<not> is_word (hd b))
         \<and> 1 \<le> length (takeWhile is_digit (c # cs))
         \<and> length (takeWhile is_digit (c # cs)) \<le> 4
         \<and> (dropWhile is_digit (c # cs) = []
            \<or> \<not> is_word (hd (dropWhile is_digit (c # cs))))"
      have "standalone_run (rev b @ c # cs) (length b) (length (takeWhile is_digit (c # cs)))"
        by (rule here_standalone_run) (use h in blast)+
      from Cons.prems(3) [OF this] lt show False by simp
    qed
    have eq: "rev (c # b) @ cs = rev b @ c # cs" by simp
    have "\<exists>b0 e. rx_search rx_digit_run (c # b) cs = Some (b0, e)
           \<and> map_of (caps e) 1 = Some (take n (drop i (rev (c # b) @ cs)))"
      by (rule Cons.IH) (use Cons.prems lt in \<open>simp_all only: eq, simp_all\<close>)
    then show ?thesis
      by (simp only: rx_search_digit_run_miss [OF no] eq)
  qed
qed

text \<open>
  Claim C4. When the normalised phrase contains a standalone run of one to four digits, the
  parser returns the value of that run, whatever words the phrase also contains; of several
  such runs it is the leftmost one.
\<close>

theorem digit_run_wins:
  assumes "standalone_run (cleanTextForNumber text) i n"
    and "\<And>i' n'. standalone_run (cleanTextForNumber text) i' n' \<Longrightarrow> i \<le> i'"
  shows "parseSlNumberRobust text =
           Some (PNum (digits_val (take n (drop i (cleanTextForNumber text)))))"
proof -
  define t where "t = cleanTextForNumber text"
  have "\<exists>b0 e. rx_search rx_digit_run [] t = Some (b0, e)
           \<and> map_of (caps e) 1 = Some (take n (drop i (rev [] @ t)))"
    by (rule rx_search_digit_run_leftmost) (use assms in \<open>simp_all add: t_def\<close>)
  then obtain b0 e where "rx_search rx_digit_run [] t = Some (b0, e)"
    and "map_of (caps e) 1 = Some (take n (drop i t))"
    by auto
  then show ?thesis
    by (simp add: parseSlNumberRobust_def t_def [symmetric] rx_exec_def group_str_def
        group_def Let_def)
qed

section \<open>Evaluation of concrete texts\<close>

lemmas rx_eval =
  str_def is_digit_def is_word_def is_space_def is_letter_def is_mark_def fold_cu_def
  is_word_iu_def lower_cu_def toLowerCase_def nfkc_cu_def normalizeNFKC_def trim_def
  digits_val_def at_boundary_def set_cap_def chr_def lit_def chr_iu_def lit_iu_def plus_def
  seqs_def rx_exec_def rx_test_def group_def group_str_def rx_replace_all_def rx_split_def
  rep.simps

lemmas clean_eval =
  rx_eval cleanTextForNumber_def rx_spaces_def rx_zdeset_def rx_not_letter_mark_digit_space_def

section \<open>Sequences\<close>

lemma rmatch_Seq_Bnd:
  "rmatch (Seq (Bnd w) r) s = (if at_boundary w s then rmatch r s else [])"
  by simp

lemma rmatch_Seq_lit:
  "rmatch (Seq (lit l) r) s =
     (if prefix l (after s) then rmatch r (adv (length l) s) else [])"
  by (simp only: rmatch.simps(3) rmatch_lit) simp

lemma rmatch_Seq_lit_iu:
  "rmatch (Seq (lit_iu l) r) s =
     (if iu_prefix l (after s) then rmatch r (adv (length l) s) else [])"
  by (simp only: rmatch.simps(3) rmatch_lit_iu) simp

lemma rmatch_Eps_fun: "rmatch Eps = (\<lambda>s. [s])"
  by (rule ext) simp

lemma rmatch_Seq_Eps: "rmatch (Seq r Eps) s = rmatch r s"
  by (simp only: rmatch.simps(3) rmatch_Eps_fun) simp

section \<open>Plain words\<close>

lemma lc_letter_cases:
  assumes "lc_letter c"
  obtains "97 \<le> c" "c \<le> 122" | "c = 269" | "c = 353" | "c = 382"
  using assms unfolding lc_letter_def by blast

lemma lc_lower: "lc_letter c \<Longrightarrow> lower_cu c = [c]"
  by (erule lc_letter_cases) (simp_all add: lower_cu_def)

lemma lc_nfkc: "lc_letter c \<Longrightarrow> nfkc_cu c = [c]"
  by (erule lc_letter_cases) (simp_all add: nfkc_cu_def)

lemma lc_is_letter: "lc_letter c \<Longrightarrow> is_letter c"
  by (erule lc_letter_cases) (simp_all add: is_letter_def)

lemma lc_not_space: "lc_letter c \<Longrightarrow> \<not> is_space c"
  by (erule lc_letter_cases) (simp_all add: is_space_def)

lemma lc_not_digit: "lc_letter c \<Longrightarrow> \<not> is_digit c"
  by (erule lc_letter_cases) (simp_all add: is_digit_def)

lemma lc_fold: "lc_letter c \<Longrightarrow> fold_cu c = c"
  by (erule lc_letter_cases) (simp_all add: fold_cu_def lower_cu_def)

lemmas lc_letter_facts = lc_lower lc_nfkc lc_is_letter lc_not_space lc_not_digit lc_fold

lemma toLowerCase_plain: "list_all lc_letter w \<Longrightarrow> toLowerCase w = w"
  by (induction w) (simp_all add: toLowerCase_def lc_letter_facts)

lemma normalizeNFKC_plain: "list_all lc_letter w \<Longrightarrow> normalizeNFKC w = w"
  by (induction w) (simp_all add: normalizeNFKC_def lc_letter_facts)

lemma rx_replace_from_no_match:
  assumes "\<And>b' a'. rmatch r (MState b' a' []) = []"
  shows "rx_replace_from r repl b a = a"
  by (induction a arbitrary: b) (simp_all add: assms del: rmatch.simps)

lemma rmatch_zdeset:
  assumes "rmatch rx_zdeset (MState b a []) \<noteq> []"
  shows "a \<noteq> [] \<and> hd a = 122 \<and> (b = [] \<or> \<not> is_word (hd b))"
proof -
  have u: "rmatch rx_zdeset (MState b a []) =
      (if at_boundary is_word (MState b a [])
       then (if prefix (str ''zdeset'') a
             then rmatch (Seq (Bnd is_word) Eps)
                    (adv (length (str ''zdeset'')) (MState b a [])) else [])
       else [])"
    unfolding rx_zdeset_def seqs_def
    by (simp only: foldr.simps comp_def id_apply rmatch_Seq_Bnd rmatch_Seq_lit mstate.sel)
  from assms have bnd: "at_boundary is_word (MState b a [])"
    and pre: "prefix (str ''zdeset'') a"
    unfolding u by (auto split: if_splits)
  from pre obtain r where "a = 122 # r"
    by (auto simp: str_def prefix_def)
  with bnd show ?thesis
    by (auto simp: at_boundary_MState is_word_def)
qed

lemma rx_replace_zdeset_plain:
  "z_inside pw a \<Longrightarrow> (pw \<longrightarrow> b \<noteq> [] \<and> is_word (hd b)) \<Longrightarrow>
   rx_replace_from rx_zdeset repl b a = a"
proof (induction a arbitrary: b pw)
  case Nil
  have "rmatch rx_zdeset (MState b [] []) = []"
    using rmatch_zdeset [of b "[]"] by blast
  then show ?case by (simp del: rmatch.simps)
next
  case (Cons c cs)
  have "rmatch rx_zdeset (MState b (c # cs) []) = []"
    using rmatch_zdeset [of b "c # cs"] Cons.prems by auto
  moreover have "rx_replace_from rx_zdeset repl (c # b) cs = cs"
    by (rule Cons.IH [of "is_word c"]) (use Cons.prems in auto)
  ultimately show ?case by (simp del: rmatch.simps)
qed

lemma rx_replace_cls_none:
  "list_all (\<lambda>c. \<not> p c) a \<Longrightarrow> rx_replace_from (Cls p) repl b a = a"
  by (induction a arbitrary: b) simp_all

lemma rx_replace_spaces_none:
  "list_all (\<lambda>c. \<not> is_space c) a \<Longrightarrow> rx_replace_from rx_spaces repl b a = a"
  by (induction a arbitrary: b) (simp_all add: rx_spaces_def plus_def)

lemma dropWhile_none: "list_all (\<lambda>c. \<not> p c) a \<Longrightarrow> dropWhile p a = a"
  by (cases a) simp_all

lemma trim_plain: "list_all (\<lambda>c. \<not> is_space c) a \<Longrightarrow> trim a = a"
  by (simp add: trim_def dropWhile_none list_all_iff)

lemma cleanTextForNumber_plain:
  assumes "list_all lc_letter w" "z_inside False w"
  shows "cleanTextForNumber w = w"
proof -
  have sp: "list_all (\<lambda>c. \<not> is_space c) w"
    and cl: "list_all (\<lambda>c. \<not> \<not> (is_letter c \<or> is_mark c \<or> is_digit c \<or> is_space c)) w"
    using assms(1) by (auto simp: list_all_iff lc_letter_facts)
  show ?thesis
    unfolding cleanTextForNumber_def rx_replace_all_def
      toLowerCase_plain [OF assms(1)] normalizeNFKC_plain [OF assms(1)]
      rx_not_letter_mark_digit_space_def
    by (simp only: rx_replace_zdeset_plain [OF assms(2)] rx_replace_cls_none [OF cl]
        rx_replace_spaces_none [OF sp] trim_plain [OF sp] simp_thms)
qed

lemma rx_search_digit_run_none:
  "list_all (\<lambda>c. \<not> is_digit c) a \<Longrightarrow> rx_search rx_digit_run b a = None"
proof (induction a arbitrary: b)
  case Nil
  show ?case by (rule rx_search_end) (simp add: rmatch_digit_run del: rmatch.simps)
next
  case (Cons c cs)
  have "rx_search rx_digit_run b (c # cs) = rx_search rx_digit_run (c # b) cs"
    by (rule rx_search_miss) (use Cons.prems in \<open>simp add: rmatch_digit_run del: rmatch.simps\<close>)
  with Cons show ?case by simp
qed

lemma split_on_absent: "sep \<notin> set w \<Longrightarrow> split_on sep w = [w]"
  by (induction w) auto

lemma words_of_plain: "w \<noteq> [] \<Longrightarrow> 32 \<notin> set w \<Longrightarrow> words_of w = [w]"
  by (simp add: words_of_def split_on_absent)

lemma iu_prefix_length: "iu_prefix h w \<Longrightarrow> length h \<le> length w"
  by (induction h w rule: iu_prefix.induct) auto

lemma rmatch_Cls_none:
  "list_all (\<lambda>c. \<not> p c) (after s) \<Longrightarrow> rmatch (Cls p) s = []"
  by (cases "after s") simp_all

lemma rmatch_hundred_test:
  assumes "list_all (\<lambda>c. \<not> is_space c) a"
    and ne: "rmatch (rx_hundred_test h) (MState b a []) \<noteq> []"
  shows "b = [] \<and> iu_prefix h a \<and> length a = length h"
proof -
  define s1 where "s1 = MState b a [(1, [])]"
  define tl where "tl = Seq (Grp 2 (Alt (Cls is_space) Eol)) Eps"
  have first: "rmatch (Grp 1 (Alt Bol (Cls is_space))) (MState b a []) =
               (if b = [] then [s1] else [])"
    using rmatch_Cls_none [of is_space "MState b a []"] assms(1)
    by (simp add: set_cap_def s1_def del: rmatch.simps(1))
  have u: "rmatch (rx_hundred_test h) (MState b a []) =
      concat (map (rmatch (Seq (lit_iu h) tl))
        (rmatch (Grp 1 (Alt Bol (Cls is_space))) (MState b a [])))"
    unfolding rx_hundred_test_def seqs_def tl_def
    by (simp only: foldr.simps comp_def id_apply rmatch.simps(3))
  from ne [unfolded u first] have b: "b = []" by (auto split: if_splits)
  have seq: "rmatch (Seq (lit_iu h) tl) s1 =
             (if iu_prefix h a then rmatch tl (adv (length h) s1) else [])"
    by (simp only: rmatch_Seq_lit_iu s1_def mstate.sel)
  from ne [unfolded u first] b have "rmatch (Seq (lit_iu h) tl) s1 \<noteq> []"
    by (simp del: rmatch.simps)
  then have pre: "iu_prefix h a" and rest: "rmatch tl (adv (length h) s1) \<noteq> []"
    unfolding seq by (auto split: if_splits)
  have nosp: "list_all (\<lambda>c. \<not> is_space c) (after (adv (length h) s1))"
    using assms(1) by (auto simp: s1_def list_all_iff dest: in_set_dropD)
  have "rmatch tl (adv (length h) s1) =
        map (set_cap 2 (adv (length h) s1))
          (rmatch (Cls is_space) (adv (length h) s1) @ rmatch Eol (adv (length h) s1))"
    unfolding tl_def rmatch_Seq_Eps by (simp only: rmatch.simps(4,7))
  with rest have "after (adv (length h) s1) = []"
    unfolding rmatch_Cls_none [OF nosp] by (auto split: if_splits)
  then have "length a \<le> length h" by (simp add: s1_def)
  with pre b iu_prefix_length [OF pre] show ?thesis by simp
qed

lemma rx_search_hundred_later:
  "list_all (\<lambda>c. \<not> is_space c) a \<Longrightarrow> b \<noteq> [] \<Longrightarrow> rx_search (rx_hundred_test h) b a = None"
proof (induction a arbitrary: b)
  case Nil
  have "rmatch (rx_hundred_test h) (MState b [] []) = []"
    using rmatch_hundred_test [of "[]" h b] Nil by blast
  then show ?case by (rule rx_search_end)
next
  case (Cons c cs)
  have "rmatch (rx_hundred_test h) (MState b (c # cs) []) = []"
    using rmatch_hundred_test [of "c # cs" h b] Cons.prems by blast
  then have "rx_search (rx_hundred_test h) b (c # cs) = rx_search (rx_hundred_test h) (c # b) cs"
    by (rule rx_search_miss)
  also have "\<dots> = None"
    by (rule Cons.IH) (use Cons.prems in simp_all)
  finally show ?case .
qed

lemma rx_test_hundred_plain:
  assumes "list_all (\<lambda>c. \<not> is_space c) w" "w \<noteq> []"
    and "\<not> (iu_prefix h w \<and> length w = length h)"
  shows "\<not> rx_test (rx_hundred_test h) w"
proof -
  obtain c cs where w: "w = c # cs" using assms(2) by (cases w) auto
  have "rmatch (rx_hundred_test h) (MState [] w []) = []"
    using rmatch_hundred_test [OF assms(1), of h "[]"] assms(3) by blast
  then have "rx_search (rx_hundred_test h) [] w = rx_search (rx_hundred_test h) [c] cs"
    unfolding w by (rule rx_search_miss)
  also have "\<dots> = None"
    by (rule rx_search_hundred_later) (use assms(1) w in auto)
  finally show ?thesis by (simp add: rx_test_def rx_exec_def)
qed

lemma iu_prefix_eq:
  "iu_prefix h w \<Longrightarrow> length w = length h \<Longrightarrow>
   list_all (\<lambda>c. fold_cu c = c) h \<Longrightarrow> list_all (\<lambda>c. fold_cu c = c) w \<Longrightarrow> w = h"
  by (induction h w rule: iu_prefix.induct) auto

lemma hundreds_folded:
  "(h, v) \<in> set hundreds \<Longrightarrow> list_all (\<lambda>c. fold_cu c = c) h"
  by (auto simp: hundreds_def str_def fold_cu_def lower_cu_def)

text \<open>On a plain word the parser is its last stage.\<close>

lemma parseSlNumberRobust_plain:
  assumes "plain_word w"
  shows "parseSlNumberRobust w = parseBelow100 w"
proof -
  from assms have ne: "w \<noteq> []" and lc: "list_all lc_letter w" and z: "z_inside False w"
    and h: "w \<notin> set (map fst hundreds)"
    by (simp_all add: plain_word_def)
  have sp: "list_all (\<lambda>c. \<not> is_space c) w" and dg: "list_all (\<lambda>c. \<not> is_digit c) w"
    and fo: "list_all (\<lambda>c. fold_cu c = c) w"
    using lc by (auto simp: list_all_iff lc_letter_facts)
  have "\<not> lc_letter 32" by (simp add: lc_letter_def)
  with lc have s32: "32 \<notin> set w" by (auto simp: list_all_iff)
  have clean: "cleanTextForNumber w = w"
    by (rule cleanTextForNumber_plain [OF lc z])
  have digit: "rx_exec rx_digit_run w = None"
    by (simp only: rx_exec_def rx_search_digit_run_none [OF dg] option.map)
  have "\<not> rx_test (rx_hundred_test hWord) w" if "(hWord, hVal) \<in> set hundreds" for hWord hVal
  proof (rule rx_test_hundred_plain [OF sp ne])
    show "\<not> (iu_prefix hWord w \<and> length w = length hWord)"
    proof
      assume "iu_prefix hWord w \<and> length w = length hWord"
      then have "w = hWord"
        using iu_prefix_eq [OF _ _ hundreds_folded [OF that] fo] by blast
      with that h show False by force
    qed
  qed
  then have hund: "find (\<lambda>(hWord, hVal). rx_test (rx_hundred_test hWord) w) hundreds = None"
    unfolding find_None_iff by blast
  have j: "join_with (str '' '') [w] = w" by simp
  show ?thesis
    unfolding parseSlNumberRobust_def clean Let_def digit words_of_plain [OF ne s32] j hund
    by (simp only: option.case list.distinct if_False)
qed

lemma clean_ena_5: "cleanTextForNumber (str ''ena 5'') = [101, 110, 97, 32, 53]"
  by (simp add: clean_eval)

theorem digit_run_wins_witness:
  "parseSlNumberRobust (str ''ena 5'') = Some (PNum 5)"
proof -
  have run: "standalone_run (cleanTextForNumber (str ''ena 5'')) 4 1"
    by (simp add: clean_ena_5 standalone_run_def is_digit_def is_word_def)
  have left: "4 \<le> i'" if "standalone_run (cleanTextForNumber (str ''ena 5'')) i' n'" for i' n'
  proof (rule ccontr)
    assume "\<not> 4 \<le> i'"
    then have "i' = 0 \<or> i' = 1 \<or> i' = 2 \<or> i' = 3" by arith
    moreover from that have "1 \<le> n'"
      and "list_all is_digit (take n' (drop i' [101, 110, 97, 32, 53]))"
      by (simp_all add: clean_ena_5 standalone_run_def)
    ultimately show False
      by (cases n') (auto simp: is_digit_def)
  qed
  show ?thesis
    using digit_run_wins [of "str ''ena 5''" 4 1, OF run left]
    by (simp add: clean_ena_5 digits_val_def)
qed

section \<open>Captured groups\<close>












lemma groups_lit [simp]: "groups (lit l) = {}"
  by (induction l) (simp_all add: lit_def chr_def)













section \<open>The numerals below one hundred\<close>

lemma ones_eval:
  "ones =
     [([110, 105, 269], 0), ([110, 105, 99], 0), ([110, 117, 108, 97], 0), ([101, 110, 97], 1),
       ([101, 110], 1), ([101, 110, 111], 1), ([100, 118, 97], 2), ([100, 118, 101], 2),
       ([116, 114, 105], 3), ([353, 116, 105, 114, 105], 4), ([115, 116, 105, 114, 105], 4),
       ([112, 101, 116], 5), ([353, 101, 115, 116], 6), ([115, 101, 115, 116], 6),
       ([115, 101, 100, 101, 109], 7), ([111, 115, 101, 109], 8), ([100, 101, 118, 101, 116], 9)]"
  by (simp add: ones_def str_def)

lemma teens_eval:
  "teens =
     [([100, 101, 115, 101, 116], 10), ([101, 110, 97, 106, 115, 116], 11),
       ([100, 118, 97, 110, 97, 106, 115, 116], 12),
       ([116, 114, 105, 110, 97, 106, 115, 116], 13),
       ([353, 116, 105, 114, 105, 110, 97, 106, 115, 116], 14),
       ([115, 116, 105, 114, 105, 110, 97, 106, 115, 116], 14),
       ([112, 101, 116, 110, 97, 106, 115, 116], 15),
       ([353, 101, 115, 116, 110, 97, 106, 115, 116], 16),
       ([115, 101, 115, 116, 110, 97, 106, 115, 116], 16),
       ([115, 101, 100, 101, 109, 110, 97, 106, 115, 116], 17),
       ([111, 115, 101, 109, 110, 97, 106, 115, 116], 18),
       ([100, 101, 118, 101, 116, 110, 97, 106, 115, 116], 19)]"
  by (simp add: teens_def str_def)

lemma tens_eval:
  "tens =
     [([100, 118, 97, 106, 115, 101, 116], 20), ([116, 114, 105, 100, 101, 115, 101, 116], 30),
       ([353, 116, 105, 114, 105, 100, 101, 115, 101, 116], 40),
       ([115, 116, 105, 114, 105, 100, 101, 115, 101, 116], 40),
       ([112, 101, 116, 100, 101, 115, 101, 116], 50),
       ([112, 101, 116, 105, 110, 100, 101, 115, 101, 116], 50),
       ([353, 101, 115, 116, 100, 101, 115, 101, 116], 60),
       ([115, 101, 115, 116, 100, 101, 115, 101, 116], 60),
       ([353, 101, 122, 100, 101, 115, 101, 116], 60),
       ([115, 101, 122, 100, 101, 115, 101, 116], 60),
       ([115, 101, 115, 116, 105, 110, 100, 101, 115, 101, 116], 60),
       ([115, 101, 100, 101, 109, 100, 101, 115, 101, 116], 70),
       ([115, 101, 100, 101, 109, 105, 110, 100, 101, 115, 101, 116], 70),
       ([111, 115, 101, 109, 100, 101, 115, 101, 116], 80),
       ([111, 115, 101, 109, 105, 110, 100, 101, 115, 101, 116], 80),
       ([100, 101, 118, 101, 116, 100, 101, 115, 101, 116], 90),
       ([100, 101, 118, 101, 116, 105, 110, 100, 101, 115, 101, 116], 90)]"
  by (simp add: tens_def str_def)

lemma hundreds_eval:
  "hundreds =
     [([100, 101, 118, 101, 116, 115, 116, 111], 900),
       ([111, 115, 101, 109, 115, 116, 111], 800),
       ([115, 101, 100, 101, 109, 115, 116, 111], 700),
       ([353, 101, 115, 116, 115, 116, 111], 600), ([115, 101, 115, 116, 115, 116, 111], 600),
       ([112, 101, 116, 115, 116, 111], 500), ([353, 116, 105, 114, 105, 115, 116, 111], 400),
       ([115, 116, 105, 114, 105, 115, 116, 111], 400), ([116, 114, 105, 115, 116, 111], 300),
       ([100, 118, 101, 115, 116, 111], 200), ([100, 118, 101, 32, 115, 116, 111], 200),
       ([115, 116, 111], 100)]"
  by (simp add: hundreds_def str_def)

lemma unit_words_eval:
  "unit_words =
     [[[110, 105, 269], [110, 105, 99], [110, 117, 108, 97]],
       [[101, 110, 97], [101, 110], [101, 110, 111]], [[100, 118, 97], [100, 118, 101]],
       [[116, 114, 105]], [[353, 116, 105, 114, 105], [115, 116, 105, 114, 105]],
       [[112, 101, 116]], [[353, 101, 115, 116], [115, 101, 115, 116]],
       [[115, 101, 100, 101, 109]], [[111, 115, 101, 109]], [[100, 101, 118, 101, 116]]]"
  by (simp add: unit_words_def str_def)

lemma teen_words_eval:
  "teen_words =
     [[[100, 101, 115, 101, 116]], [[101, 110, 97, 106, 115, 116]],
       [[100, 118, 97, 110, 97, 106, 115, 116]], [[116, 114, 105, 110, 97, 106, 115, 116]],
       [[353, 116, 105, 114, 105, 110, 97, 106, 115, 116], [115, 116, 105, 114, 105, 110, 97, 106, 115, 116]],
       [[112, 101, 116, 110, 97, 106, 115, 116]],
       [[353, 101, 115, 116, 110, 97, 106, 115, 116], [115, 101, 115, 116, 110, 97, 106, 115, 116]],
       [[115, 101, 100, 101, 109, 110, 97, 106, 115, 116]],
       [[111, 115, 101, 109, 110, 97, 106, 115, 116]],
       [[100, 101, 118, 101, 116, 110, 97, 106, 115, 116]]]"
  by (simp add: teen_words_def str_def)

lemma decade_words_eval:
  "decade_words =
     [[[100, 118, 97, 106, 115, 101, 116]], [[116, 114, 105, 100, 101, 115, 101, 116]],
       [[353, 116, 105, 114, 105, 100, 101, 115, 101, 116], [115, 116, 105, 114, 105, 100, 101, 115, 101, 116]],
       [[112, 101, 116, 100, 101, 115, 101, 116], [112, 101, 116, 105, 110, 100, 101, 115, 101, 116]],
       [[353, 101, 115, 116, 100, 101, 115, 101, 116], [115, 101, 115, 116, 100, 101, 115, 101, 116], [353, 101, 122, 100, 101, 115, 101, 116], [115, 101, 122, 100, 101, 115, 101, 116], [115, 101, 115, 116, 105, 110, 100, 101, 115, 101, 116]],
       [[115, 101, 100, 101, 109, 100, 101, 115, 101, 116], [115, 101, 100, 101, 109, 105, 110, 100, 101, 115, 101, 116]],
       [[111, 115, 101, 109, 100, 101, 115, 101, 116], [111, 115, 101, 109, 105, 110, 100, 101, 115, 101, 116]],
       [[100, 101, 118, 101, 116, 100, 101, 115, 101, 116], [100, 101, 118, 101, 116, 105, 110, 100, 101, 115, 101, 116]]]"
  by (simp add: decade_words_def str_def)

lemma object_prototype_keys_eval:
  "object_prototype_keys =
     [[99, 111, 110, 115, 116, 114, 117, 99, 116, 111, 114],
       [95, 95, 100, 101, 102, 105, 110, 101, 71, 101, 116, 116, 101, 114, 95, 95],
       [95, 95, 100, 101, 102, 105, 110, 101, 83, 101, 116, 116, 101, 114, 95, 95],
       [104, 97, 115, 79, 119, 110, 80, 114, 111, 112, 101, 114, 116, 121],
       [95, 95, 108, 111, 111, 107, 117, 112, 71, 101, 116, 116, 101, 114, 95, 95],
       [95, 95, 108, 111, 111, 107, 117, 112, 83, 101, 116, 116, 101, 114, 95, 95],
       [105, 115, 80, 114, 111, 116, 111, 116, 121, 112, 101, 79, 102],
       [112, 114, 111, 112, 101, 114, 116, 121, 73, 115, 69, 110, 117, 109, 101, 114, 97, 98, 108, 101],
       [116, 111, 83, 116, 114, 105, 110, 103], [118, 97, 108, 117, 101, 79, 102],
       [95, 95, 112, 114, 111, 116, 111, 95, 95],
       [116, 111, 76, 111, 99, 97, 108, 101, 83, 116, 114, 105, 110, 103]]"
  by (simp add: object_prototype_keys_def str_def)

lemma str_in_eval: "str ''in'' = [105, 110]"
  by (simp add: str_def)

lemma str_devet_eval: "str ''devet'' = [100, 101, 118, 101, 116]"
  by (simp add: str_def)

lemma round_tripsI:
  "ws = word_forms n \<Longrightarrow> ws \<noteq> [] \<Longrightarrow>
   list_all (\<lambda>w. plain_word w \<and> parseBelow100 w = Some (PNum n)) ws \<Longrightarrow> round_trips n"
  by (auto simp: round_trips_def parses_to_def list_all_iff parseSlNumberRobust_plain)

lemmas below_eval =
  rx_eval parseBelow100_def tens_eval teens_eval ones_eval tens_case_def compound_ones_def
  rx_tens_tail_def rx_spaces_def isWordLike_def normalizeWord_def u_to_v_def obj_get_def
  object_prototype_keys_eval str_in_eval str_devet_eval words_of_def Let_def
  plain_word_def lc_letter_def hundreds_eval

lemmas word_eval =
  word_forms_def compound_words_def unit_words_eval teen_words_eval decade_words_eval
  str_in_eval

lemma round_trips_0x:
  "round_trips (10 * 0 + 0)"
  "round_trips (10 * 0 + 1)"
  "round_trips (10 * 0 + 2)"
  "round_trips (10 * 0 + 3)"
  "round_trips (10 * 0 + 4)"
  "round_trips (10 * 0 + 5)"
  "round_trips (10 * 0 + 6)"
  "round_trips (10 * 0 + 7)"
  "round_trips (10 * 0 + 8)"
  "round_trips (10 * 0 + 9)"
  by (rule round_tripsI [OF refl], simp add: word_eval, simp add: word_eval below_eval)+

lemma round_trips_1x:
  "round_trips (10 * 1 + 0)"
  "round_trips (10 * 1 + 1)"
  "round_trips (10 * 1 + 2)"
  "round_trips (10 * 1 + 3)"
  "round_trips (10 * 1 + 4)"
  "round_trips (10 * 1 + 5)"
  "round_trips (10 * 1 + 6)"
  "round_trips (10 * 1 + 7)"
  "round_trips (10 * 1 + 8)"
  "round_trips (10 * 1 + 9)"
  by (rule round_tripsI [OF refl], simp add: word_eval, simp add: word_eval below_eval)+

lemma round_trips_2x:
  "round_trips (10 * 2 + 0)"
  "round_trips (10 * 2 + 1)"
  "round_trips (10 * 2 + 2)"
  "round_trips (10 * 2 + 3)"
  "round_trips (10 * 2 + 4)"
  "round_trips (10 * 2 + 5)"
  "round_trips (10 * 2 + 6)"
  "round_trips (10 * 2 + 7)"
  "round_trips (10 * 2 + 8)"
  "round_trips (10 * 2 + 9)"
  by (rule round_tripsI [OF refl], simp add: word_eval, simp add: word_eval below_eval)+

lemma round_trips_3x:
  "round_trips (10 * 3 + 0)"
  "round_trips (10 * 3 + 1)"
  "round_trips (10 * 3 + 2)"
  "round_trips (10 * 3 + 3)"
  "round_trips (10 * 3 + 4)"
  "round_trips (10 * 3 + 5)"
  "round_trips (10 * 3 + 6)"
  "round_trips (10 * 3 + 7)"
  "round_trips (10 * 3 + 8)"
  "round_trips (10 * 3 + 9)"
  by (rule round_tripsI [OF refl], simp add: word_eval, simp add: word_eval below_eval)+

lemma round_trips_4x:
  "round_trips (10 * 4 + 0)"
  "round_trips (10 * 4 + 1)"
  "round_trips (10 * 4 + 2)"
  "round_trips (10 * 4 + 3)"
  "round_trips (10 * 4 + 4)"
  "round_trips (10 * 4 + 5)"
  "round_trips (10 * 4 + 6)"
  "round_trips (10 * 4 + 7)"
  "round_trips (10 * 4 + 8)"
  "round_trips (10 * 4 + 9)"
  by (rule round_tripsI [OF refl], simp add: word_eval, simp add: word_eval below_eval)+

lemma round_trips_5x:
  "round_trips (10 * 5 + 0)"
  "round_trips (10 * 5 + 1)"
  "round_trips (10 * 5 + 2)"
  "round_trips (10 * 5 + 3)"
  "round_trips (10 * 5 + 4)"
  "round_trips (10 * 5 + 5)"
  "round_trips (10 * 5 + 6)"
  "round_trips (10 * 5 + 7)"
  "round_trips (10 * 5 + 8)"
  "round_trips (10 * 5 + 9)"
  by (rule round_tripsI [OF refl], simp add: word_eval, simp add: word_eval below_eval)+

lemma round_trips_6x:
  "round_trips (10 * 6 + 0)"
  "round_trips (10 * 6 + 1)"
  "round_trips (10 * 6 + 2)"
  "round_trips (10 * 6 + 3)"
  "round_trips (10 * 6 + 4)"
  "round_trips (10 * 6 + 5)"
  "round_trips (10 * 6 + 6)"
  "round_trips (10 * 6 + 7)"
  "round_trips (10 * 6 + 8)"
  "round_trips (10 * 6 + 9)"
  by (rule round_tripsI [OF refl], simp add: word_eval, simp add: word_eval below_eval)+

lemma round_trips_7x:
  "round_trips (10 * 7 + 0)"
  "round_trips (10 * 7 + 1)"
  "round_trips (10 * 7 + 2)"
  "round_trips (10 * 7 + 3)"
  "round_trips (10 * 7 + 4)"
  "round_trips (10 * 7 + 5)"
  "round_trips (10 * 7 + 6)"
  "round_trips (10 * 7 + 7)"
  "round_trips (10 * 7 + 8)"
  "round_trips (10 * 7 + 9)"
  by (rule round_tripsI [OF refl], simp add: word_eval, simp add: word_eval below_eval)+

lemma round_trips_8x:
  "round_trips (10 * 8 + 0)"
  "round_trips (10 * 8 + 1)"
  "round_trips (10 * 8 + 2)"
  "round_trips (10 * 8 + 3)"
  "round_trips (10 * 8 + 4)"
  "round_trips (10 * 8 + 5)"
  "round_trips (10 * 8 + 6)"
  "round_trips (10 * 8 + 7)"
  "round_trips (10 * 8 + 8)"
  "round_trips (10 * 8 + 9)"
  by (rule round_tripsI [OF refl], simp add: word_eval, simp add: word_eval below_eval)+

lemma round_trips_9x:
  "round_trips (10 * 9 + 0)"
  "round_trips (10 * 9 + 1)"
  "round_trips (10 * 9 + 2)"
  "round_trips (10 * 9 + 3)"
  "round_trips (10 * 9 + 4)"
  "round_trips (10 * 9 + 5)"
  "round_trips (10 * 9 + 6)"
  "round_trips (10 * 9 + 7)"
  "round_trips (10 * 9 + 8)"
  "round_trips (10 * 9 + 9)"
  by (rule round_tripsI [OF refl], simp add: word_eval, simp add: word_eval below_eval)+

lemma below_ten_cases:
  assumes "u < (10::nat)"
  obtains "u = 0" | "u = 1" | "u = 2" | "u = 3" | "u = 4" | "u = 5" | "u = 6" | "u = 7"
    | "u = 8" | "u = 9"
proof -
  from assms have "u = 0 \<or> u = 1 \<or> u = 2 \<or> u = 3 \<or> u = 4 \<or> u = 5 \<or> u = 6 \<or> u = 7
    \<or> u = 8 \<or> u = 9"
    by arith
  then show thesis using that by blast
qed

lemma round_trips_below_100:
  assumes "d < 10" "u < 10"
  shows "round_trips (10 * d + u)"
  using assms(1)
proof (cases d rule: below_ten_cases)
  case 1
  from assms(2) show ?thesis unfolding 1
    by (cases u rule: below_ten_cases) (simp_all only: round_trips_0x)
next
  case 2
  from assms(2) show ?thesis unfolding 2
    by (cases u rule: below_ten_cases) (simp_all only: round_trips_1x)
next
  case 3
  from assms(2) show ?thesis unfolding 3
    by (cases u rule: below_ten_cases) (simp_all only: round_trips_2x)
next
  case 4
  from assms(2) show ?thesis unfolding 4
    by (cases u rule: below_ten_cases) (simp_all only: round_trips_3x)
next
  case 5
  from assms(2) show ?thesis unfolding 5
    by (cases u rule: below_ten_cases) (simp_all only: round_trips_4x)
next
  case 6
  from assms(2) show ?thesis unfolding 6
    by (cases u rule: below_ten_cases) (simp_all only: round_trips_5x)
next
  case 7
  from assms(2) show ?thesis unfolding 7
    by (cases u rule: below_ten_cases) (simp_all only: round_trips_6x)
next
  case 8
  from assms(2) show ?thesis unfolding 8
    by (cases u rule: below_ten_cases) (simp_all only: round_trips_7x)
next
  case 9
  from assms(2) show ?thesis unfolding 9
    by (cases u rule: below_ten_cases) (simp_all only: round_trips_8x)
next
  case 10
  from assms(2) show ?thesis unfolding 10
    by (cases u rule: below_ten_cases) (simp_all only: round_trips_9x)
qed

text \<open>
  Claim C3. Every number from 0 to 99 has a word form, and on each of its word forms, the
  canonical spelling and the documented variants, the parser returns exactly that number.
\<close>

theorem numeral_round_trip:
  assumes "n < 100"
  shows "word_forms n \<noteq> []
       \<and> (\<forall>w \<in> set (word_forms n). parseSlNumberRobust w = Some (PNum n))"
proof -
  have "n = 10 * (n div 10) + n mod 10" "n div 10 < 10" "n mod 10 < 10"
    using assms by auto
  with round_trips_below_100 [of "n div 10" "n mod 10"] have "round_trips n"
    by simp
  then show ?thesis
    by (simp add: round_trips_def parses_to_def list_all_iff)
qed

theorem numeral_round_trip_witness:
  "parseSlNumberRobust (str ''enaindvajset'') = Some (PNum 21)"
proof -
  have "str ''enaindvajset'' \<in> set (word_forms 21)"
    by (simp add: word_eval) (simp add: str_def)
  with numeral_round_trip [of 21] show ?thesis by simp
qed

end
